theory Spec2Isabelle
  imports Main "HOL-Library.Word"
begin

section \<open>JavaScript values and strings\<close>

text \<open>
  A JavaScript string is modelled as a HOL \<open>string\<close>, one \<open>char\<close> per code unit, the
  code units being those below 256 (Basic Latin and Latin-1). Arguments that arrive over
  IPC are untyped in the source, so the ones the handlers inspect with \<open>typeof\<close> are
  values of \<open>jsval\<close>.
\<close>

datatype jsval = JUndefined | JNull | JBool bool | JNum int | JStr string | JObj

text \<open>The characters \<open>String.prototype.trim\<close> strips, among the code units below 256:
  TAB, LF, VT, FF, CR, SPACE and NBSP.\<close>

definition is_js_space :: "char \<Rightarrow> bool" where
  "is_js_space c = (of_char c \<in> {9, 10, 11, 12, 13, 32, 160 :: nat})"

definition js_trim :: "string \<Rightarrow> string" where
  "js_trim s = rev (dropWhile is_js_space (rev (dropWhile is_js_space s)))"

text \<open>\<open>String.prototype.toLowerCase\<close> on code units below 256: A-Z and the Latin-1
  capitals (all of 192..222 but the multiplication sign 215) move up by 32.\<close>

definition lower_char :: "char \<Rightarrow> char" where
  "lower_char c = (let n = (of_char c :: nat) in
     if (65 \<le> n \<and> n \<le> 90) \<or> (192 \<le> n \<and> n \<le> 222 \<and> n \<noteq> 215)
     then char_of (n + 32) else c)"

definition toLowerCase :: "string \<Rightarrow> string" where
  "toLowerCase s = map lower_char s"

text \<open>\<open>Number.prototype.toString\<close> on a non-negative integer such as \<open>Date.now()\<close>:
  its decimal digits, most significant first.\<close>

fun toString_nat :: "nat \<Rightarrow> string" where
  "toString_nat n =
     (if n < 10 then [char_of (48 + n)]
      else toString_nat (n div 10) @ [char_of (48 + n mod 10)])"

declare toString_nat.simps [simp del]

text \<open>The value of \<open>a || b\<close> where \<open>a\<close> is a string or missing: the empty string is
  falsy.\<close>

definition str_or :: "string option \<Rightarrow> string \<Rightarrow> string" where
  "str_or a b = (case a of None \<Rightarrow> b | Some s \<Rightarrow> if s = [] then b else s)"

section \<open>Data model of \<open>src/openrouter.js\<close> and \<open>src/unified-handlers.js\<close>\<close>

text \<open>
  Files are named by their path in the repository. \<open>src/unified-handlers.js\<close> loads
  \<open>src/openrouter.js\<close>; wherever \<open>openrouter.js\<close> stands alone below, that module
  is meant. \<open>sendImageMessage\<close> belongs to the renderer script that invokes the
  handlers.\<close>

record turn =
  timestamp :: nat
  transcription :: string
  ai_response :: string

text \<open>The object stored in \<open>lastSessionParams\<close>.\<close>

record session_params =
  params_apiKey :: string
  params_model :: string
  params_customPrompt :: string
  params_profile :: string
  params_language :: string

text \<open>The \<open>sessionObj\<close> built by \<open>initializeOpenRouterSession\<close>.\<close>

record or_session =
  apiKey :: string
  model :: string
  systemPrompt :: string
  profile :: string
  language :: string
  active :: bool

text \<open>What \<open>sendToRenderer(channel, data)\<close> is called with, one constructor per channel.\<close>

datatype notification =
    SessionInitializing bool
  | UpdateStatus string
  | UpdateResponse string
  | SaveConversationTurn "string option" turn "turn list"

text \<open>The body of the user message of a chat-completions request.\<close>

datatype user_content = TextContent string | ImageContent string string

text \<open>One \<open>axios.post\<close> to the chat-completions endpoint.\<close>

record post_request =
  req_model :: string
  req_system :: string
  req_user :: user_content
  req_bearer :: string
  req_timeout :: nat

text \<open>
  The module \<open>./gemini\<close> is not modelled. Its session handles are
  opaque numbers, every call into it is recorded, and what the call returns or throws is
  an input of the function that makes the call.\<close>

datatype gemini_call =
    GeminiInitialize string string string string
  | GeminiStopAudio
  | GeminiClose nat
  | GeminiSendText nat string
  | GeminiSendImage nat string
  | GeminiSendAudio nat string string
  | GeminiNewSession

text \<open>
  Session objects live in a store, \<open>heap\<close>, and are referred to by their index: the
  source shares one mutable object between \<open>openRouterSessionRef.current\<close> and every
  caller that still holds it. The other fields are the module-level variables of
  \<open>openrouter.js\<close>, the two session slots of \<open>unified-handlers.js\<close>, and the record
  of the calls made to the renderer, to the network and to the Gemini module.\<close>

record state =
  heap :: "or_session list"
  currentSessionId :: "string option"
  currentTranscription :: string
  conversationHistory :: "turn list"
  isInitializingSession :: bool
  reconnectionAttempts :: nat
  lastSessionParams :: "session_params option"
  openRouterSessionRef :: "nat option"
  geminiSessionRef :: "nat option"
  renderer_log :: "notification list"
  http_log :: "post_request list"
  gemini_log :: "gemini_call list"

text \<open>The uniform result of an IPC handler: \<open>{success: true, ...}\<close> with its payload, or
  \<open>{success: false, error}\<close>.\<close>

datatype 'a ipc_result = IpcSuccess 'a | IpcFailure string

fun success :: "'a ipc_result \<Rightarrow> bool" where
  "success (IpcSuccess _) = True"
| "success (IpcFailure _) = False"

text \<open>What an awaited call into code outside this model comes back with.\<close>

datatype 'a outcome = Returns 'a | Throws string

section \<open>Conversation log (\<open>openrouter.js\<close>)\<close>

definition sendToRenderer :: "notification \<Rightarrow> state \<Rightarrow> state" where
  "sendToRenderer n st = st\<lparr>renderer_log := renderer_log st @ [n]\<rparr>"

text \<open>\<open>initializeNewSession\<close>; \<open>now\<close> is what \<open>Date.now()\<close> returns.\<close>

definition initializeNewSession :: "nat \<Rightarrow> state \<Rightarrow> state" where
  "initializeNewSession now st =
     st\<lparr>currentSessionId := Some (toString_nat now),
        currentTranscription := [],
        conversationHistory := []\<rparr>"

text \<open>\<open>saveConversationTurn\<close>; \<open>tId\<close> is the clock read by \<open>initializeNewSession\<close>
  when there is no session id yet, \<open>tTurn\<close> the one read for the timestamp.\<close>

definition saveConversationTurn :: "nat \<Rightarrow> nat \<Rightarrow> string \<Rightarrow> string \<Rightarrow> state \<Rightarrow> state" where
  "saveConversationTurn tId tTurn transcr aiResponse st =
     (let st1 = (if str_or (currentSessionId st) [] = [] then initializeNewSession tId st else st);
          conversationTurn = \<lparr>timestamp = tTurn,
                              transcription = js_trim transcr,
                              ai_response = js_trim aiResponse\<rparr>;
          st2 = st1\<lparr>conversationHistory := conversationHistory st1 @ [conversationTurn]\<rparr>
      in sendToRenderer
           (SaveConversationTurn (currentSessionId st2) conversationTurn (conversationHistory st2))
           st2)"

definition getCurrentSessionData :: "state \<Rightarrow> string option \<times> turn list" where
  "getCurrentSessionData st = (currentSessionId st, conversationHistory st)"

section \<open>Session creation (\<open>openrouter.js\<close>)\<close>

text \<open>
  \<open>initializeOpenRouterSession\<close>. The function has no \<open>await\<close>, so it runs in one
  piece. \<open>getSystemPrompt\<close> comes from the module \<open>./prompts\<close>, which is not
  modelled, and is the parameter \<open>gsp\<close>. The result is \<open>None\<close> for the source's
  \<open>return false\<close> and the index of the new session object otherwise.\<close>

definition initializeOpenRouterSession ::
  "(string \<Rightarrow> string \<Rightarrow> bool \<Rightarrow> string) \<Rightarrow> nat \<Rightarrow>
   string \<Rightarrow> string \<Rightarrow> string \<Rightarrow> string \<Rightarrow> string \<Rightarrow> bool \<Rightarrow> state \<Rightarrow> nat option \<times> state" where
  "initializeOpenRouterSession gsp now k m customPrompt prof lang isReconnection st =
     (if isInitializingSession st then (None, st)
      else
        let st1 = sendToRenderer (SessionInitializing True) (st\<lparr>isInitializingSession := True\<rparr>);
            st2 = (if \<not> isReconnection
                   then st1\<lparr>lastSessionParams :=
                              Some \<lparr>params_apiKey = k, params_model = m,
                                    params_customPrompt = customPrompt,
                                    params_profile = prof, params_language = lang\<rparr>,
                            reconnectionAttempts := 0\<rparr>
                   else st1);
            sp = gsp prof customPrompt True;
            st3 = (if \<not> isReconnection then initializeNewSession now st2 else st2);
            sessionObj = \<lparr>apiKey = k, model = m, systemPrompt = sp,
                          profile = prof, language = lang, active = True\<rparr>;
            a = length (heap st3);
            st4 = st3\<lparr>heap := heap st3 @ [sessionObj]\<rparr>;
            st5 = st4\<lparr>isInitializingSession := False\<rparr>;
            st6 = sendToRenderer (SessionInitializing False) st5;
            st7 = sendToRenderer
                    (UpdateStatus (''OpenRouter session initialized with model: '' @ m)) st6
        in (Some a, st7))"

section \<open>Sending to the backend (\<open>openrouter.js\<close>)\<close>

text \<open>
  What the awaited \<open>axios.post\<close> comes back with. \<open>HttpResolves c\<close>: the response
  arrived and \<open>c\<close> is \<open>resp.data?.choices?.[0]?.message?.content\<close>, \<open>None\<close> when
  any link of that chain is missing. \<open>HttpRejects r e\<close>: the call threw, \<open>r\<close> being
  \<open>error.response?.data?.error?.message\<close> and \<open>e\<close> being \<open>error.message\<close>.\<close>

datatype http_outcome = HttpResolves "string option" | HttpRejects "string option" "string option"

text \<open>A session handle is \<open>None\<close> for \<open>null\<close> and the index of the object otherwise.\<close>

definition deref :: "state \<Rightarrow> nat option \<Rightarrow> or_session option" where
  "deref st session =
     (case session of
        None \<Rightarrow> None
      | Some a \<Rightarrow> if a < length (heap st) then Some (heap st ! a) else None)"

text \<open>The entry test of both send functions,
  \<open>!session || !session.apiKey || !session.model || !session.active\<close>: the session object
  when the test lets the call through.\<close>

definition usable :: "state \<Rightarrow> nat option \<Rightarrow> or_session option" where
  "usable st session =
     (case deref st session of
        None \<Rightarrow> None
      | Some s \<Rightarrow> if apiKey s = [] \<or> model s = [] \<or> \<not> active s then None else Some s)"

text \<open>
  \<open>sendTextToOpenRouter\<close> suspends once, at \<open>await axios.post(...)\<close>. The part before
  the suspension tests the session and issues the request; \<open>Inl\<close> is the message of the
  error thrown.\<close>

definition sendTextToOpenRouter_issue :: "string \<Rightarrow> nat option \<Rightarrow> state \<Rightarrow> string + state" where
  "sendTextToOpenRouter_issue text session st =
     (case usable st session of
        None \<Rightarrow> Inl ''No active OpenRouter session''
      | Some s \<Rightarrow>
          Inr (st\<lparr>http_log := http_log st @
                 [\<lparr>req_model = model s, req_system = systemPrompt s,
                   req_user = TextContent text, req_bearer = apiKey s,
                   req_timeout = 30000\<rparr>]\<rparr>))"

text \<open>The part after the suspension. The result is the message of the error thrown or
  the content of the response returned.\<close>

definition sendTextToOpenRouter_resume ::
  "nat \<Rightarrow> nat \<Rightarrow> string \<Rightarrow> http_outcome \<Rightarrow> state \<Rightarrow> (string + string option) \<times> state" where
  "sendTextToOpenRouter_resume tId tTurn text out st =
     (case out of
        HttpResolves content \<Rightarrow>
          let reply = str_or content [];
              st1 = sendToRenderer (UpdateResponse reply) st;
              st2 = (if text \<noteq> [] \<and> reply \<noteq> []
                     then saveConversationTurn tId tTurn text reply st1 else st1)
          in (Inr content, st2)
      | HttpRejects respMsg errMsg \<Rightarrow>
          let errorMsg = str_or respMsg (str_or errMsg ''Unknown error'')
          in (Inl errorMsg, sendToRenderer (UpdateStatus (''Error: '' @ errorMsg)) st))"

text \<open>The whole call, when nothing else runs during the suspension.\<close>

definition sendTextToOpenRouter ::
  "nat \<Rightarrow> nat \<Rightarrow> string \<Rightarrow> nat option \<Rightarrow> http_outcome \<Rightarrow> state \<Rightarrow> (string + string option) \<times> state" where
  "sendTextToOpenRouter tId tTurn text session out st =
     (case sendTextToOpenRouter_issue text session st of
        Inl e \<Rightarrow> (Inl e, st)
      | Inr st1 \<Rightarrow> sendTextToOpenRouter_resume tId tTurn text out st1)"

definition image_prompt :: string where
  "image_prompt = ''Help me on this page, give me the answer no bs, complete answer. So if its a code question, give me the approach in few bullet points, then the entire code. Also if theres anything else i need to know, tell me. If its a question about the website, give me the answer no bs, complete answer. If its a mcq question, give me the answer no bs, complete answer.''"

definition sendImageToOpenRouter_issue :: "string \<Rightarrow> nat option \<Rightarrow> state \<Rightarrow> string + state" where
  "sendImageToOpenRouter_issue base64Data session st =
     (case usable st session of
        None \<Rightarrow> Inl ''No active OpenRouter session''
      | Some s \<Rightarrow>
          Inr (st\<lparr>http_log := http_log st @
                 [\<lparr>req_model = model s, req_system = systemPrompt s,
                   req_user = ImageContent image_prompt (''data:image/jpeg;base64,'' @ base64Data),
                   req_bearer = apiKey s, req_timeout = 45000\<rparr>]\<rparr>))"

definition sendImageToOpenRouter_resume ::
  "nat \<Rightarrow> nat \<Rightarrow> http_outcome \<Rightarrow> state \<Rightarrow> (string + string option) \<times> state" where
  "sendImageToOpenRouter_resume tId tTurn out st =
     (case out of
        HttpResolves content \<Rightarrow>
          let reply = str_or content [];
              st1 = sendToRenderer (UpdateResponse reply) st;
              st2 = (if reply \<noteq> []
                     then saveConversationTurn tId tTurn ''[Image sent]'' reply st1 else st1)
          in (Inr content, st2)
      | HttpRejects respMsg errMsg \<Rightarrow>
          let errorMsg = str_or respMsg (str_or errMsg ''Unknown error'')
          in (Inl errorMsg, sendToRenderer (UpdateStatus (''Error: '' @ errorMsg)) st))"

definition sendImageToOpenRouter ::
  "nat \<Rightarrow> nat \<Rightarrow> string \<Rightarrow> nat option \<Rightarrow> http_outcome \<Rightarrow> state \<Rightarrow> (string + string option) \<times> state" where
  "sendImageToOpenRouter tId tTurn base64Data session out st =
     (case sendImageToOpenRouter_issue base64Data session st of
        Inl e \<Rightarrow> (Inl e, st)
      | Inr st1 \<Rightarrow> sendImageToOpenRouter_resume tId tTurn out st1)"

definition sendAudioToOpenRouter :: "string \<Rightarrow> nat option \<Rightarrow> state \<Rightarrow> (string + unit) \<times> state" where
  "sendAudioToOpenRouter base64Data session st =
     (let errorMsg = ''Audio input not supported in OpenRouter (yet)''
      in (Inl errorMsg, sendToRenderer (UpdateStatus errorMsg) st))"

section \<open>The handlers of \<open>setupOpenRouterIpcHandlers\<close> (\<open>openrouter.js\<close>)\<close>

text \<open>\<open>openrouter-send-text-message\<close> and \<open>openrouter-send-image-content\<close>, for a string
  argument.\<close>

definition openrouter_send_text_message ::
  "nat \<Rightarrow> nat \<Rightarrow> http_outcome \<Rightarrow> string \<Rightarrow> state \<Rightarrow> (string option) ipc_result \<times> state" where
  "openrouter_send_text_message tId tTurn out text st =
     (if openRouterSessionRef st = None then (IpcFailure ''No active OpenRouter session'', st)
      else case sendTextToOpenRouter tId tTurn text (openRouterSessionRef st) out st of
             (Inr resp, st') \<Rightarrow> (IpcSuccess resp, st')
           | (Inl msg, st') \<Rightarrow> (IpcFailure msg, st'))"

definition openrouter_send_image_content ::
  "nat \<Rightarrow> nat \<Rightarrow> http_outcome \<Rightarrow> string \<Rightarrow> state \<Rightarrow> (string option) ipc_result \<times> state" where
  "openrouter_send_image_content tId tTurn out d st =
     (if openRouterSessionRef st = None then (IpcFailure ''No active OpenRouter session'', st)
      else case sendImageToOpenRouter tId tTurn d (openRouterSessionRef st) out st of
             (Inr resp, st') \<Rightarrow> (IpcSuccess resp, st')
           | (Inl msg, st') \<Rightarrow> (IpcFailure msg, st'))"

text \<open>\<open>openrouter-initialize-session\<close>.\<close>

definition openrouter_initialize_session ::
  "(string \<Rightarrow> string \<Rightarrow> bool \<Rightarrow> string) \<Rightarrow> nat \<Rightarrow>
   string \<Rightarrow> string \<Rightarrow> string \<Rightarrow> string \<Rightarrow> string \<Rightarrow> state \<Rightarrow> unit ipc_result \<times> state" where
  "openrouter_initialize_session gsp now k m customPrompt prof lang st =
     (case initializeOpenRouterSession gsp now k m customPrompt prof lang False st of
        (Some a, st') \<Rightarrow> (IpcSuccess (), st'\<lparr>openRouterSessionRef := Some a\<rparr>)
      | (None, st') \<Rightarrow> (IpcFailure ''Failed to initialize OpenRouter session'', st'))"

text \<open>\<open>openrouter-start-new-session\<close>: the id returned is the one just stored.\<close>

definition openrouter_start_new_session :: "nat \<Rightarrow> state \<Rightarrow> (string option) ipc_result \<times> state" where
  "openrouter_start_new_session now st =
     (let st1 = initializeNewSession now st in (IpcSuccess (currentSessionId st1), st1))"

section \<open>The unified handlers (\<open>unified-handlers.js\<close>)\<close>

text \<open>
  \<open>getCurrentModelType\<close> asks the first window for the \<open>modelType\<close> item of its
  \<open>localStorage\<close>. \<open>NoWindow\<close>: there is no window; \<open>ScriptRejects\<close>:
  \<open>executeJavaScript\<close> threw; \<open>ScriptItem i\<close>: the script ran and \<open>getItem\<close> gave
  \<open>i\<close>, \<open>None\<close> standing for \<open>null\<close> and for an exception inside the script.\<close>

datatype renderer_read = NoWindow | ScriptRejects | ScriptItem "string option"

definition getCurrentModelType :: "renderer_read \<Rightarrow> string" where
  "getCurrentModelType r =
     (case r of
        ScriptItem item \<Rightarrow> toLowerCase (str_or item ''gemini'')
      | _ \<Rightarrow> ''gemini'')"

definition gemini_called :: "gemini_call \<Rightarrow> state \<Rightarrow> state" where
  "gemini_called c st = st\<lparr>gemini_log := gemini_log st @ [c]\<rparr>"

text \<open>
  \<open>initialize-model\<close>. \<open>orModel\<close> is what the script reading the \<open>openRouterModel\<close>
  item comes back with, \<open>gInit\<close> what \<open>initializeGeminiSession\<close> comes back with (a
  session handle, or a falsy value as \<open>None\<close>). The parameters \<open>profile\<close> and
  \<open>language\<close> are taken after their defaults have been filled in.\<close>

definition initialize_model ::
  "(string \<Rightarrow> string \<Rightarrow> bool \<Rightarrow> string) \<Rightarrow> nat \<Rightarrow> renderer_read \<Rightarrow> (string option) outcome \<Rightarrow>
   (nat option) outcome \<Rightarrow> jsval \<Rightarrow> string \<Rightarrow> string \<Rightarrow> string \<Rightarrow> state \<Rightarrow> unit ipc_result \<times> state" where
  "initialize_model gsp now r orModel gInit k customPrompt prof lang st =
     (case k of
        JStr s \<Rightarrow>
          if s = [] \<or> length (js_trim s) = 0 then (IpcFailure ''Invalid API key provided'', st)
          else if getCurrentModelType r = ''openrouter'' then
            (case orModel of
               Throws msg \<Rightarrow> (IpcFailure msg, st)
             | Returns item \<Rightarrow>
                 (case initializeOpenRouterSession gsp now (js_trim s)
                         (str_or item ''anthropic/claude-3.5-sonnet'') customPrompt prof lang False st of
                    (Some a, st') \<Rightarrow> (IpcSuccess (), st'\<lparr>openRouterSessionRef := Some a\<rparr>)
                  | (None, st') \<Rightarrow> (IpcFailure ''Failed to initialize OpenRouter session'', st')))
          else
            (let st1 = gemini_called (GeminiInitialize (js_trim s) customPrompt prof lang) st
             in case gInit of
                  Returns (Some h) \<Rightarrow> (IpcSuccess (), st1\<lparr>geminiSessionRef := Some h\<rparr>)
                | Returns None \<Rightarrow> (IpcFailure ''Failed to initialize Gemini session'', st1)
                | Throws msg \<Rightarrow> (IpcFailure msg, st1))
      | _ \<Rightarrow> (IpcFailure ''Invalid API key provided'', st))"

text \<open>
  \<open>initialize-model\<close> suspends at \<open>await getCurrentModelType()\<close> before it has read
  or written any variable; other handlers run during the suspension. The part before it
  tests the key: \<open>Inl\<close> is the error returned, \<open>Inr\<close> the key of the pending call. The
  part after it takes what the awaited reads came back with. (The two later
  suspensions, for the model name and for the promise of
  \<open>initializeOpenRouterSession\<close>, are not split off.)\<close>

definition initialize_model_entry :: "jsval \<Rightarrow> string + string" where
  "initialize_model_entry k =
     (case k of
        JStr s \<Rightarrow>
          if s = [] \<or> length (js_trim s) = 0 then Inl ''Invalid API key provided'' else Inr s
      | _ \<Rightarrow> Inl ''Invalid API key provided'')"

definition initialize_model_resume ::
  "(string \<Rightarrow> string \<Rightarrow> bool \<Rightarrow> string) \<Rightarrow> nat \<Rightarrow> renderer_read \<Rightarrow> (string option) outcome \<Rightarrow>
   (nat option) outcome \<Rightarrow> string \<Rightarrow> string \<Rightarrow> string \<Rightarrow> string \<Rightarrow> state \<Rightarrow> unit ipc_result \<times> state" where
  "initialize_model_resume gsp now r orModel gInit s customPrompt prof lang st =
     (if getCurrentModelType r = ''openrouter'' then
        (case orModel of
           Throws msg \<Rightarrow> (IpcFailure msg, st)
         | Returns item \<Rightarrow>
             (case initializeOpenRouterSession gsp now (js_trim s)
                     (str_or item ''anthropic/claude-3.5-sonnet'') customPrompt prof lang False st of
                (Some a, st') \<Rightarrow> (IpcSuccess (), st'\<lparr>openRouterSessionRef := Some a\<rparr>)
              | (None, st') \<Rightarrow> (IpcFailure ''Failed to initialize OpenRouter session'', st')))
      else
        (let st1 = gemini_called (GeminiInitialize (js_trim s) customPrompt prof lang) st
         in case gInit of
              Returns (Some h) \<Rightarrow> (IpcSuccess (), st1\<lparr>geminiSessionRef := Some h\<rparr>)
            | Returns None \<Rightarrow> (IpcFailure ''Failed to initialize Gemini session'', st1)
            | Throws msg \<Rightarrow> (IpcFailure msg, st1)))"

text \<open>\<open>send-text-message\<close>. \<open>gSend\<close> is what \<open>sendRealtimeInput\<close> of the Gemini
  session comes back with.\<close>

definition send_text_message ::
  "nat \<Rightarrow> nat \<Rightarrow> renderer_read \<Rightarrow> http_outcome \<Rightarrow> unit outcome \<Rightarrow> jsval \<Rightarrow> state \<Rightarrow>
   unit ipc_result \<times> state" where
  "send_text_message tId tTurn r out gSend text st =
     (case text of
        JStr t \<Rightarrow>
          if t = [] \<or> length (js_trim t) = 0 then (IpcFailure ''Invalid text message'', st)
          else if getCurrentModelType r = ''openrouter'' then
            (case deref st (openRouterSessionRef st) of
               None \<Rightarrow> (IpcFailure ''No active OpenRouter session'', st)
             | Some s \<Rightarrow>
                 if \<not> active s then (IpcFailure ''No active OpenRouter session'', st)
                 else (case sendTextToOpenRouter tId tTurn (js_trim t) (openRouterSessionRef st) out st of
                         (Inr resp, st') \<Rightarrow> (IpcSuccess (), st')
                       | (Inl msg, st') \<Rightarrow> (IpcFailure msg, st')))
          else
            (case geminiSessionRef st of
               None \<Rightarrow> (IpcFailure ''No active Gemini session'', st)
             | Some h \<Rightarrow>
                 let st1 = gemini_called (GeminiSendText h (js_trim t)) st
                 in case gSend of
                      Returns u \<Rightarrow> (IpcSuccess (), st1)
                    | Throws msg \<Rightarrow> (IpcFailure msg, st1))
      | _ \<Rightarrow> (IpcFailure ''Invalid text message'', st))"

text \<open>\<open>send-image-content\<close>. \<open>decodedLength d\<close> is \<open>Buffer.from(d, 'base64').length\<close>,
  a function of the platform.\<close>

definition send_image_content ::
  "nat \<Rightarrow> nat \<Rightarrow> (string \<Rightarrow> nat) \<Rightarrow> renderer_read \<Rightarrow> http_outcome \<Rightarrow> unit outcome \<Rightarrow> jsval \<Rightarrow> state \<Rightarrow>
   unit ipc_result \<times> state" where
  "send_image_content tId tTurn decodedLength r out gSend d st =
     (case d of
        JStr b \<Rightarrow>
          if b = [] then (IpcFailure ''Invalid image data'', st)
          else if getCurrentModelType r = ''openrouter'' then
            (case deref st (openRouterSessionRef st) of
               None \<Rightarrow> (IpcFailure ''No active OpenRouter session'', st)
             | Some s \<Rightarrow>
                 if \<not> active s then (IpcFailure ''No active OpenRouter session'', st)
                 else (case sendImageToOpenRouter tId tTurn b (openRouterSessionRef st) out st of
                         (Inr resp, st') \<Rightarrow> (IpcSuccess (), st')
                       | (Inl msg, st') \<Rightarrow> (IpcFailure msg, st')))
          else
            (case geminiSessionRef st of
               None \<Rightarrow> (IpcFailure ''No active Gemini session'', st)
             | Some h \<Rightarrow>
                 if decodedLength b < 1000 then (IpcFailure ''Image buffer too small'', st)
                 else
                   let st1 = gemini_called (GeminiSendImage h b) st
                   in case gSend of
                        Returns u \<Rightarrow> (IpcSuccess (), st1)
                      | Throws msg \<Rightarrow> (IpcFailure msg, st1))
      | _ \<Rightarrow> (IpcFailure ''Invalid image data'', st))"

text \<open>\<open>send-audio-content\<close>; \<open>mimeType\<close> is \<open>None\<close> when the payload has none.\<close>

definition send_audio_content ::
  "renderer_read \<Rightarrow> unit outcome \<Rightarrow> jsval \<Rightarrow> string option \<Rightarrow> state \<Rightarrow> unit ipc_result \<times> state" where
  "send_audio_content r gSend d mimeType st =
     (if getCurrentModelType r = ''openrouter''
      then (IpcFailure ''Audio input not supported with OpenRouter model.'', st)
      else
        (case geminiSessionRef st of
           None \<Rightarrow> (IpcFailure ''No active Gemini session'', st)
         | Some h \<Rightarrow>
             (case d of
                JStr b \<Rightarrow>
                  if b = [] then (IpcFailure ''Invalid audio data'', st)
                  else
                    let st1 = gemini_called
                                (GeminiSendAudio h b (str_or mimeType ''audio/pcm;rate=24000'')) st
                    in (case gSend of
                          Returns u \<Rightarrow> (IpcSuccess (), st1)
                        | Throws msg \<Rightarrow> (IpcFailure msg, st1))
              | _ \<Rightarrow> (IpcFailure ''Invalid audio data'', st))))"

text \<open>
  \<open>close-session\<close>. \<open>gStop\<close> and \<open>gClose\<close> are what \<open>stopMacOSAudioCapture\<close> and
  \<open>close\<close> of the Gemini side come back with. Each entry of \<open>results\<close> is the type of
  the session and the error message, if closing it failed.\<close>

definition close_gemini ::
  "unit outcome \<Rightarrow> unit outcome \<Rightarrow> state \<Rightarrow> (string \<times> string option) list \<times> state" where
  "close_gemini gStop gClose st =
     (case geminiSessionRef st of
        None \<Rightarrow> ([], st)
      | Some h \<Rightarrow>
          let st1 = gemini_called GeminiStopAudio st
          in (case gStop of
                Throws msg \<Rightarrow> ([(''gemini'', Some msg)], st1)
              | Returns u \<Rightarrow>
                  let st2 = gemini_called (GeminiClose h) st1
                  in (case gClose of
                        Throws msg \<Rightarrow> ([(''gemini'', Some msg)], st2)
                      | Returns v \<Rightarrow> ([(''gemini'', None)], st2\<lparr>geminiSessionRef := None\<rparr>))))"

definition close_openrouter :: "state \<Rightarrow> (string \<times> string option) list \<times> state" where
  "close_openrouter st =
     (case openRouterSessionRef st of
        None \<Rightarrow> ([], st)
      | Some a \<Rightarrow>
          ([(''openrouter'', None)],
           st\<lparr>heap := (heap st)[a := (heap st ! a)\<lparr>active := False\<rparr>],
              openRouterSessionRef := None\<rparr>))"

definition close_session ::
  "unit outcome \<Rightarrow> unit outcome \<Rightarrow> state \<Rightarrow> ((string \<times> string option) list) ipc_result \<times> state" where
  "close_session gStop gClose st =
     (let (results1, st1) = close_gemini gStop gClose st;
          (results2, st2) = close_openrouter st1
      in (IpcSuccess (results1 @ results2), st2))"

text \<open>
  \<open>start-new-session\<close>. \<open>t1\<close> is the clock read inside \<open>initializeNewSession\<close>,
  \<open>t2\<close> the clock read for the \<open>sessionId\<close> of the result; \<open>gNew\<close> is what the
  Gemini module's \<open>initializeNewSession\<close> comes back with.\<close>

definition start_new_session ::
  "nat \<Rightarrow> nat \<Rightarrow> renderer_read \<Rightarrow> unit outcome \<Rightarrow> state \<Rightarrow> string ipc_result \<times> state" where
  "start_new_session t1 t2 r gNew st =
     (if getCurrentModelType r = ''openrouter''
      then (IpcSuccess (toString_nat t2), initializeNewSession t1 st)
      else
        let st1 = gemini_called GeminiNewSession st
        in (case gNew of
              Returns u \<Rightarrow> (IpcSuccess (toString_nat t2), st1)
            | Throws msg \<Rightarrow> (IpcFailure msg, st1)))"

section \<open>The renderer's \<open>sendImageMessage\<close>\<close>

text \<open>The renderer's wrapper around \<open>send-image-content\<close>: \<open>base64data\<close> is \<open>None\<close>
  when it is \<open>undefined\<close>. The handler is invoked only past the length test.\<close>

definition sendImageMessage ::
  "nat \<Rightarrow> nat \<Rightarrow> (string \<Rightarrow> nat) \<Rightarrow> renderer_read \<Rightarrow> http_outcome \<Rightarrow> unit outcome \<Rightarrow>
   string option \<Rightarrow> state \<Rightarrow> unit ipc_result \<times> state" where
  "sendImageMessage tId tTurn decodedLength r out gSend base64data st =
     (case base64data of
        None \<Rightarrow> (IpcFailure ''Invalid image data'', st)
      | Some b \<Rightarrow>
          if b = [] \<or> length b < 100 then (IpcFailure ''Invalid image data'', st)
          else send_image_content tId tTurn decodedLength r out gSend (JStr b) st)"

section \<open>The older copy of \<open>openrouter.js\<close> at the repository root\<close>

text \<open>
  The repository holds a second \<open>openrouter.js\<close>, one directory above the module that
  \<open>unified-handlers.js\<close> loads. Its \<open>sendImageToOpenRouter\<close> differs from the one
  above: its session objects have no \<open>active\<close> field, a missing session makes it return
  without a value instead of throwing, the request carries another prompt and no timeout
  (0 here), the turn is saved whatever the reply, and the error of the failed request is
  thrown again as it is. Its \<open>saveConversationTurn\<close> and its \<open>convertStereoToMono\<close>
  are those modelled above.\<close>

datatype root_result = RootReturnsNothing | RootReturns "string option" | RootThrows "string option"

definition root_sendImageToOpenRouter ::
  "nat \<Rightarrow> nat \<Rightarrow> string \<Rightarrow> nat option \<Rightarrow> http_outcome \<Rightarrow> state \<Rightarrow> root_result \<times> state" where
  "root_sendImageToOpenRouter tId tTurn base64Data session out st =
     (case deref st session of
        None \<Rightarrow> (RootReturnsNothing, st)
      | Some s \<Rightarrow>
          if apiKey s = [] \<or> model s = [] then (RootReturnsNothing, st)
          else
            let st1 = st\<lparr>http_log := http_log st @
                        [\<lparr>req_model = model s, req_system = systemPrompt s,
                          req_user = ImageContent ''Describe this image.''
                                       (''data:image/jpeg;base64,'' @ base64Data),
                          req_bearer = apiKey s, req_timeout = 0\<rparr>]\<rparr>
            in (case out of
                  HttpResolves content \<Rightarrow>
                    let reply = str_or content [];
                        st2 = sendToRenderer (UpdateResponse reply) st1
                    in (RootReturns content,
                        saveConversationTurn tId tTurn ''[Image sent]'' reply st2)
                | HttpRejects respMsg errMsg \<Rightarrow>
                    (RootThrows errMsg,
                     sendToRenderer
                       (UpdateStatus (''Error: '' @
                          str_or respMsg (case errMsg of None \<Rightarrow> ''undefined'' | Some e \<Rightarrow> e)))
                       st1)))"

section \<open>Audio buffers (\<open>openrouter.js\<close>)\<close>

text \<open>
  A \<open>Buffer\<close> is a list of bytes. \<open>readInt16LE\<close> and \<open>writeInt16LE\<close> throw a
  \<open>RangeError\<close> unless both bytes lie inside the buffer. The 16-bit sample is a
  \<open>16 word\<close>, whose \<open>sint\<close> is the number JavaScript sees; every such number passes the
  range test of \<open>writeInt16LE\<close>.\<close>

datatype buffer_error = RangeError

definition readInt16LE :: "8 word list \<Rightarrow> nat \<Rightarrow> buffer_error + 16 word" where
  "readInt16LE buf offset =
     (if offset + 1 < length buf
      then Inr (word_cat (buf ! (offset + 1)) (buf ! offset))
      else Inl RangeError)"

definition writeInt16LE :: "8 word list \<Rightarrow> 16 word \<Rightarrow> nat \<Rightarrow> buffer_error + 8 word list" where
  "writeInt16LE buf v offset =
     (if offset + 1 < length buf
      then Inr (buf[offset := ucast v, offset + 1 := ucast (drop_bit 8 v)])
      else Inl RangeError)"

text \<open>
  The loop of \<open>convertStereoToMono\<close>. Its test \<open>i < samples\<close>, with
  \<open>samples = stereoBuffer.length / 4\<close> a fraction when the length is no multiple of 4, is
  \<open>i * 4 < length stereoBuffer\<close>.\<close>

function convertStereoToMono_loop ::
  "8 word list \<Rightarrow> nat \<Rightarrow> 8 word list \<Rightarrow> buffer_error + 8 word list" where
  "convertStereoToMono_loop stereoBuffer i monoBuffer =
     (if i * 4 < length stereoBuffer then
        (case readInt16LE stereoBuffer (i * 4) of
           Inl e \<Rightarrow> Inl e
         | Inr leftSample \<Rightarrow>
             (case writeInt16LE monoBuffer leftSample (i * 2) of
                Inl e \<Rightarrow> Inl e
              | Inr monoBuffer' \<Rightarrow> convertStereoToMono_loop stereoBuffer (i + 1) monoBuffer'))
      else Inr monoBuffer)"
  by pat_completeness auto
termination
  by (relation "measure (\<lambda>(stereoBuffer, i, monoBuffer). length stereoBuffer - i * 4)") auto

declare convertStereoToMono_loop.simps [simp del]

text \<open>\<open>Buffer.alloc(samples * 2)\<close> gives \<open>length stereoBuffer div 2\<close> zero bytes.\<close>

definition convertStereoToMono :: "8 word list \<Rightarrow> buffer_error + 8 word list" where
  "convertStereoToMono stereoBuffer =
     convertStereoToMono_loop stereoBuffer 0 (replicate (length stereoBuffer div 2) 0)"

section \<open>States of the running program\<close>

text \<open>The state when the modules have just been loaded.\<close>

definition initial_state :: state where
  "initial_state = \<lparr>heap = [],
     currentSessionId = None,
     currentTranscription = [],
     conversationHistory = [],
     isInitializingSession = False,
     reconnectionAttempts = 0,
     lastSessionParams = None,
     openRouterSessionRef = None,
     geminiSessionRef = None,
     renderer_log = [],
     http_log = [],
     gemini_log = []\<rparr>"

text \<open>Turns exist only under a session id: \<open>saveConversationTurn\<close> is the one place that
  adds a turn, and it sets the id first when there is none.\<close>

definition log_inv :: "state \<Rightarrow> bool" where
  "log_inv st = (str_or (currentSessionId st) [] = [] \<longrightarrow> conversationHistory st = [])"

text \<open>Reading a decimal numeral back, for the proof that \<open>toString_nat\<close> is injective.\<close>

definition digits_value :: "string \<Rightarrow> nat" where
  "digits_value s = foldl (\<lambda>acc c. acc * 10 + (of_char c - 48)) 0 s"

subsection \<open>A sample state\<close>

text \<open>A state in the middle of a conversation: one live session, one recorded turn, two
  reconnection attempts counted.\<close>

definition sample_params :: session_params where
  "sample_params = \<lparr>params_apiKey = ''sk-old'', params_model = ''m0'',
     params_customPrompt = [], params_profile = ''interview'',
     params_language = ''en-US''\<rparr>"

definition sample_session :: or_session where
  "sample_session = \<lparr>apiKey = ''sk-old'', model = ''m0'', systemPrompt = ''be brief'',
     profile = ''interview'', language = ''en-US'', active = True\<rparr>"

definition sample_turn :: turn where
  "sample_turn = \<lparr>timestamp = 900, transcription = ''hello'', ai_response = ''hi''\<rparr>"

definition sample_state :: state where
  "sample_state = \<lparr>heap = [sample_session],
     currentSessionId = Some ''800'',
     currentTranscription = [],
     conversationHistory = [sample_turn],
     isInitializingSession = False,
     reconnectionAttempts = 2,
     lastSessionParams = Some sample_params,
     openRouterSessionRef = Some 0,
     geminiSessionRef = None,
     renderer_log = [],
     http_log = [],
     gemini_log = []\<rparr>"

definition sample_prompt :: "string \<Rightarrow> string \<Rightarrow> bool \<Rightarrow> string" where
  "sample_prompt prof customPrompt search = prof @ '': '' @ customPrompt"

text \<open>A stand-in for the length of the decoded buffer: three bytes for four characters.\<close>

definition sample_decodedLength :: "string \<Rightarrow> nat" where
  "sample_decodedLength d = length d * 3 div 4"

text \<open>The sample state after \<open>close-session\<close>.\<close>

definition sample_closed :: state where
  "sample_closed = sample_state\<lparr>heap := [sample_session\<lparr>active := False\<rparr>],
                                openRouterSessionRef := None\<rparr>"

text \<open>The sample state once \<open>sendTextToOpenRouter\<close> has issued its request for the text
  \<open>q\<close>.\<close>

definition sample_issued :: state where
  "sample_issued = sample_state\<lparr>http_log :=
     [\<lparr>req_model = ''m0'', req_system = ''be brief'', req_user = TextContent ''q'',
       req_bearer = ''sk-old'', req_timeout = 30000\<rparr>]\<rparr>"

text \<open>
  The states of a run: the state at load time and every state that follows from one by a
  handler, or by one half of a suspended send or of a suspended \<open>initialize-model\<close>, so
  that every interleaving of the handlers at their suspensions is a run. Every function
  of the model returns; a state left behind by an exception inside
  \<open>initializeOpenRouterSession\<close> is not among them.\<close>

inductive reachable :: "state \<Rightarrow> bool" where
  at_load: "reachable initial_state"
| after_initialize_model:
    "reachable st \<Longrightarrow>
     reachable (snd (initialize_model gsp now r orModel gInit k customPrompt prof lang st))"
| after_initialize_model_resume:
    "reachable st \<Longrightarrow>
     reachable (snd (initialize_model_resume gsp now r orModel gInit s customPrompt prof lang st))"
| after_openrouter_initialize_session:
    "reachable st \<Longrightarrow>
     reachable (snd (openrouter_initialize_session gsp now k m customPrompt prof lang st))"
| after_text_issue:
    "reachable st \<Longrightarrow> sendTextToOpenRouter_issue msg session st = Inr st' \<Longrightarrow> reachable st'"
| after_text_resume:
    "reachable st \<Longrightarrow> reachable (snd (sendTextToOpenRouter_resume tId tTurn msg out st))"
| after_image_issue:
    "reachable st \<Longrightarrow> sendImageToOpenRouter_issue d session st = Inr st' \<Longrightarrow> reachable st'"
| after_image_resume:
    "reachable st \<Longrightarrow> reachable (snd (sendImageToOpenRouter_resume tId tTurn out st))"
| after_send_text_message:
    "reachable st \<Longrightarrow> reachable (snd (send_text_message tId tTurn r out gSend v st))"
| after_send_image_content:
    "reachable st \<Longrightarrow> reachable (snd (send_image_content tId tTurn dl r out gSend v st))"
| after_send_audio_content:
    "reachable st \<Longrightarrow> reachable (snd (send_audio_content r gSend v mimeType st))"
| after_openrouter_send_text_message:
    "reachable st \<Longrightarrow> reachable (snd (openrouter_send_text_message tId tTurn out msg st))"
| after_openrouter_send_image_content:
    "reachable st \<Longrightarrow> reachable (snd (openrouter_send_image_content tId tTurn out d st))"
| after_close_session:
    "reachable st \<Longrightarrow> reachable (snd (close_session gStop gClose st))"
| after_start_new_session:
    "reachable st \<Longrightarrow> reachable (snd (start_new_session tNew tRet r gNew st))"
| after_openrouter_start_new_session:
    "reachable st \<Longrightarrow> reachable (snd (openrouter_start_new_session now st))"

text \<open>A first \<open>initialize-model\<close> resumed and completed at load time, with the key
  \<open>sk-A\<close> and the model \<open>m1\<close>.\<close>

definition sample_first_initialized :: state where
  "sample_first_initialized =
     snd (initialize_model_resume sample_prompt 1000 (ScriptItem (Some ''OpenRouter''))
            (Returns (Some ''m1'')) (Returns None) ''sk-A'' [] ''exam'' ''en-US'' initial_state)"

section \<open>Reconnection leaves the log and the stored parameters alone\<close>

text \<open>
  C4. A call of \<open>initializeOpenRouterSession\<close> with \<open>isReconnection = true\<close> leaves
  \<open>lastSessionParams\<close>, \<open>reconnectionAttempts\<close>, \<open>currentSessionId\<close> and
  \<open>conversationHistory\<close> as they were, whatever the state and the other arguments. A
  call with \<open>isReconnection = false\<close> that is not turned away by the initialisation flag
  stores its arguments in \<open>lastSessionParams\<close>, sets \<open>reconnectionAttempts\<close> to 0 and
  starts a new log (a fresh id, no turns). So a call that changes one of the four variables
  has \<open>isReconnection = false\<close>.\<close>

theorem initialize_reconnection_frame:
  fixes st :: state and gsp now k m cp prof lang isRec
  defines "r \<equiv> snd (initializeOpenRouterSession gsp now k m cp prof lang True st)"
      and "f \<equiv> snd (initializeOpenRouterSession gsp now k m cp prof lang False st)"
      and "c \<equiv> snd (initializeOpenRouterSession gsp now k m cp prof lang isRec st)"
  shows "lastSessionParams r = lastSessionParams st
       \<and> reconnectionAttempts r = reconnectionAttempts st
       \<and> currentSessionId r = currentSessionId st
       \<and> conversationHistory r = conversationHistory st
       \<and> (\<not> isInitializingSession st \<longrightarrow>
            lastSessionParams f =
              Some \<lparr>params_apiKey = k, params_model = m, params_customPrompt = cp,
                    params_profile = prof, params_language = lang\<rparr>
          \<and> reconnectionAttempts f = 0
          \<and> currentSessionId f = Some (toString_nat now)
          \<and> conversationHistory f = [])
       \<and> ((lastSessionParams c \<noteq> lastSessionParams st
            \<or> reconnectionAttempts c \<noteq> reconnectionAttempts st
            \<or> currentSessionId c \<noteq> currentSessionId st
            \<or> conversationHistory c \<noteq> conversationHistory st) \<longrightarrow> \<not> isRec)"
  unfolding r_def f_def c_def
  by (simp add: initializeOpenRouterSession_def Let_def sendToRenderer_def
        initializeNewSession_def)

lemma toString_nat_1000: "toString_nat 1000 = ''1000''"
  by code_simp

theorem initialize_reconnection_frame_witness:
  "\<not> isInitializingSession sample_state
   \<and> conversationHistory (snd (initializeOpenRouterSession sample_prompt 1000
         ''sk-new'' ''m1'' [] ''exam'' ''en-US'' True sample_state)) = [sample_turn]
   \<and> reconnectionAttempts (snd (initializeOpenRouterSession sample_prompt 1000
         ''sk-new'' ''m1'' [] ''exam'' ''en-US'' True sample_state)) = 2
   \<and> currentSessionId (snd (initializeOpenRouterSession sample_prompt 1000
         ''sk-new'' ''m1'' [] ''exam'' ''en-US'' False sample_state)) = Some ''1000''
   \<and> currentSessionId (snd (initializeOpenRouterSession sample_prompt 1000
         ''sk-new'' ''m1'' [] ''exam'' ''en-US'' False sample_state))
       \<noteq> currentSessionId sample_state
   \<and> conversationHistory (snd (initializeOpenRouterSession sample_prompt 1000
         ''sk-new'' ''m1'' [] ''exam'' ''en-US'' False sample_state)) = []"
  using initialize_reconnection_frame [where st = sample_state and gsp = sample_prompt
          and now = 1000 and k = "''sk-new''" and m = "''m1''" and cp = "[]"
          and prof = "''exam''" and lang = "''en-US''" and isRec = False]
  by (simp add: sample_state_def toString_nat_1000)

section \<open>Evaluation of the string functions on the literals used below\<close>

lemma js_trim_Nil [simp]: "js_trim [] = []"
  by (simp add: js_trim_def)

lemma getCurrentModelType_OpenRouter:
  "getCurrentModelType (ScriptItem (Some ''OpenRouter'')) = ''openrouter''"
  by code_simp

lemma js_trim_key: "js_trim '' sk-1 '' = ''sk-1''"
  by (simp add: js_trim_def is_js_space_def)

lemma js_trim_blank: "js_trim ''   '' = []"
  by (simp add: js_trim_def is_js_space_def)

section \<open>Audio with the openrouter provider\<close>

text \<open>
  C7. When \<open>getCurrentModelType\<close> gives \<open>openrouter\<close>, \<open>send-audio-content\<close> returns
  \<open>{success: false, error: 'Audio input not supported with OpenRouter model.'}\<close>, a
  message that names the provider, for every payload and every state, so with or without
  an active session. The state that comes back is the state that went in: no call of
  \<open>sendAudioToOpenRouter\<close> (it would have notified the renderer), none to the Gemini
  session, no request on the network.\<close>

theorem audio_rejected_for_openrouter:
  "getCurrentModelType r = ''openrouter'' \<Longrightarrow>
     send_audio_content r gSend d mimeType st
       = (IpcFailure ''Audio input not supported with OpenRouter model.'', st)"
  by (simp add: send_audio_content_def)

theorem audio_rejected_for_openrouter_witness:
  "getCurrentModelType (ScriptItem (Some ''OpenRouter'')) = ''openrouter''
   \<and> send_audio_content (ScriptItem (Some ''OpenRouter'')) (Returns ()) (JStr ''AAAA'')
        (Some ''audio/pcm;rate=24000'') sample_state
       = (IpcFailure ''Audio input not supported with OpenRouter model.'', sample_state)
   \<and> send_audio_content (ScriptItem (Some ''OpenRouter'')) (Returns ()) (JStr ''AAAA'')
        (Some ''audio/pcm;rate=24000'') initial_state
       = (IpcFailure ''Audio input not supported with OpenRouter model.'', initial_state)"
  using audio_rejected_for_openrouter [where r = "ScriptItem (Some ''OpenRouter'')"
          and gSend = "Returns ()" and d = "JStr ''AAAA''"
          and mimeType = "Some ''audio/pcm;rate=24000''" and st = sample_state]
        audio_rejected_for_openrouter [where r = "ScriptItem (Some ''OpenRouter'')"
          and gSend = "Returns ()" and d = "JStr ''AAAA''"
          and mimeType = "Some ''audio/pcm;rate=24000''" and st = initial_state]
  by (simp add: getCurrentModelType_OpenRouter)

section \<open>Initialisation without a usable key\<close>

text \<open>
  C8. When the \<open>apiKey\<close> argument of \<open>initialize-model\<close> is missing, is not a string,
  or is a string that is empty once trimmed, the handler returns
  \<open>{success: false, error: 'Invalid API key provided'}\<close> whatever the provider setting,
  and the state is untouched: neither \<open>initializeOpenRouterSession\<close> nor
  \<open>initializeGeminiSession\<close> has been called and nothing went to the network.\<close>

theorem initialize_model_blank_key:
  "(\<forall>s. k = JStr s \<longrightarrow> js_trim s = []) \<Longrightarrow>
     initialize_model gsp now r orModel gInit k cp prof lang st
       = (IpcFailure ''Invalid API key provided'', st)"
  by (cases k) (auto simp add: initialize_model_def)

theorem initialize_model_blank_key_witness:
  "js_trim ''   '' = []
   \<and> initialize_model sample_prompt 1000 (ScriptItem (Some ''OpenRouter'')) (Returns (Some ''m1''))
        (Returns (Some 7)) (JStr ''   '') [] ''exam'' ''en-US'' sample_state
       = (IpcFailure ''Invalid API key provided'', sample_state)
   \<and> initialize_model sample_prompt 1000 (ScriptItem None) (Returns (Some ''m1''))
        (Returns (Some 7)) JUndefined [] ''exam'' ''en-US'' sample_state
       = (IpcFailure ''Invalid API key provided'', sample_state)"
  using initialize_model_blank_key [where k = "JStr ''   ''" and gsp = sample_prompt
          and now = 1000 and r = "ScriptItem (Some ''OpenRouter'')"
          and orModel = "Returns (Some ''m1'')" and gInit = "Returns (Some 7)" and cp = "[]"
          and prof = "''exam''" and lang = "''en-US''" and st = sample_state]
        initialize_model_blank_key [where k = JUndefined and gsp = sample_prompt
          and now = 1000 and r = "ScriptItem None"
          and orModel = "Returns (Some ''m1'')" and gInit = "Returns (Some 7)" and cp = "[]"
          and prof = "''exam''" and lang = "''en-US''" and st = sample_state]
  by (simp add: js_trim_blank)

section \<open>The log invariant and the two halves of a send\<close>

lemma log_inv_initial_state: "log_inv initial_state"
  by (simp add: log_inv_def initial_state_def str_or_def)

lemma log_inv_sample_state: "log_inv sample_state"
  by (simp add: log_inv_def sample_state_def str_or_def)

lemma saveConversationTurn_history:
  "log_inv st \<Longrightarrow>
     conversationHistory (saveConversationTurn tId tTurn a b st)
       = conversationHistory st @
           [\<lparr>timestamp = tTurn, transcription = js_trim a, ai_response = js_trim b\<rparr>]"
  by (simp add: saveConversationTurn_def log_inv_def Let_def sendToRenderer_def
        initializeNewSession_def)

lemma toString_nat_not_Nil: "toString_nat n \<noteq> []"
  by (subst toString_nat.simps) simp

lemma log_inv_initializeNewSession: "log_inv (initializeNewSession now st)"
  by (simp add: log_inv_def initializeNewSession_def)

lemma log_inv_saveConversationTurn: "log_inv (saveConversationTurn tId tTurn a b st)"
  by (simp add: log_inv_def saveConversationTurn_def Let_def sendToRenderer_def
        initializeNewSession_def str_or_def toString_nat_not_Nil split: option.splits)

lemma issue_text_fields:
  "sendTextToOpenRouter_issue text session st = Inr st1 \<Longrightarrow>
     conversationHistory st1 = conversationHistory st
   \<and> currentSessionId st1 = currentSessionId st
   \<and> heap st1 = heap st
   \<and> openRouterSessionRef st1 = openRouterSessionRef st"
  by (auto simp add: sendTextToOpenRouter_issue_def split: option.splits)

lemma issue_image_fields:
  "sendImageToOpenRouter_issue d session st = Inr st1 \<Longrightarrow>
     conversationHistory st1 = conversationHistory st
   \<and> currentSessionId st1 = currentSessionId st
   \<and> heap st1 = heap st
   \<and> openRouterSessionRef st1 = openRouterSessionRef st"
  by (auto simp add: sendImageToOpenRouter_issue_def split: option.splits)

lemma resume_text_history:
  "log_inv st \<Longrightarrow>
     conversationHistory (snd (sendTextToOpenRouter_resume tId tTurn text out st))
       = (case out of
            HttpRejects r e \<Rightarrow> conversationHistory st
          | HttpResolves resp \<Rightarrow>
              if text \<noteq> [] \<and> str_or resp [] \<noteq> []
              then conversationHistory st @
                     [\<lparr>timestamp = tTurn, transcription = js_trim text,
                       ai_response = js_trim (str_or resp [])\<rparr>]
              else conversationHistory st)"
proof (cases out)
  case (HttpResolves resp)
  assume inv: "log_inv st"
  have inv': "log_inv (sendToRenderer (UpdateResponse (str_or resp [])) st)"
    using inv by (simp add: log_inv_def sendToRenderer_def)
  show ?thesis
    using HttpResolves saveConversationTurn_history [OF inv']
    by (simp add: sendTextToOpenRouter_resume_def Let_def sendToRenderer_def)
next
  case (HttpRejects r e)
  then show ?thesis
    by (simp add: sendTextToOpenRouter_resume_def Let_def sendToRenderer_def)
qed

lemma resume_image_history:
  "log_inv st \<Longrightarrow>
     conversationHistory (snd (sendImageToOpenRouter_resume tId tTurn out st))
       = (case out of
            HttpRejects r e \<Rightarrow> conversationHistory st
          | HttpResolves resp \<Rightarrow>
              if str_or resp [] \<noteq> []
              then conversationHistory st @
                     [\<lparr>timestamp = tTurn, transcription = js_trim ''[Image sent]'',
                       ai_response = js_trim (str_or resp [])\<rparr>]
              else conversationHistory st)"
proof (cases out)
  case (HttpResolves resp)
  assume inv: "log_inv st"
  have inv': "log_inv (sendToRenderer (UpdateResponse (str_or resp [])) st)"
    using inv by (simp add: log_inv_def sendToRenderer_def)
  show ?thesis
    using HttpResolves saveConversationTurn_history [OF inv']
    by (simp add: sendImageToOpenRouter_resume_def Let_def sendToRenderer_def)
next
  case (HttpRejects r e)
  then show ?thesis
    by (simp add: sendImageToOpenRouter_resume_def Let_def sendToRenderer_def)
qed

lemma resume_text_result:
  "fst (sendTextToOpenRouter_resume tId tTurn text out st)
     = (case out of HttpResolves resp \<Rightarrow> Inr resp
        | HttpRejects r e \<Rightarrow> Inl (str_or r (str_or e ''Unknown error'')))"
  by (simp add: sendTextToOpenRouter_resume_def Let_def split: http_outcome.splits)

lemma resume_image_result:
  "fst (sendImageToOpenRouter_resume tId tTurn out st)
     = (case out of HttpResolves resp \<Rightarrow> Inr resp
        | HttpRejects r e \<Rightarrow> Inl (str_or r (str_or e ''Unknown error'')))"
  by (simp add: sendImageToOpenRouter_resume_def Let_def split: http_outcome.splits)

lemma js_trim_image_sent: "js_trim ''[Image sent]'' = ''[Image sent]''"
  by (simp add: js_trim_def is_js_space_def)

lemma sendText_history:
  assumes "log_inv st"
  shows "conversationHistory (snd (sendTextToOpenRouter tId tTurn text session out st))
       = (case fst (sendTextToOpenRouter tId tTurn text session out st) of
            Inl e \<Rightarrow> conversationHistory st
          | Inr resp \<Rightarrow>
              if text \<noteq> [] \<and> str_or resp [] \<noteq> []
              then conversationHistory st @
                     [\<lparr>timestamp = tTurn, transcription = js_trim text,
                       ai_response = js_trim (str_or resp [])\<rparr>]
              else conversationHistory st)"
proof (cases "sendTextToOpenRouter_issue text session st")
  case (Inl e)
  then show ?thesis by (simp add: sendTextToOpenRouter_def)
next
  case (Inr st1)
  have h: "conversationHistory st1 = conversationHistory st" and "currentSessionId st1 = currentSessionId st"
    using issue_text_fields [OF Inr] by simp_all
  then have inv1: "log_inv st1" using assms by (simp add: log_inv_def)
  show ?thesis
    using Inr resume_text_history [OF inv1, of tId tTurn "text" out] h
    by (simp add: sendTextToOpenRouter_def resume_text_result split: http_outcome.splits)
qed

lemma sendImage_history:
  assumes "log_inv st"
  shows "conversationHistory (snd (sendImageToOpenRouter tId tTurn d session out st))
       = (case fst (sendImageToOpenRouter tId tTurn d session out st) of
            Inl e \<Rightarrow> conversationHistory st
          | Inr resp \<Rightarrow>
              if str_or resp [] \<noteq> []
              then conversationHistory st @
                     [\<lparr>timestamp = tTurn, transcription = ''[Image sent]'',
                       ai_response = js_trim (str_or resp [])\<rparr>]
              else conversationHistory st)"
proof (cases "sendImageToOpenRouter_issue d session st")
  case (Inl e)
  then show ?thesis by (simp add: sendImageToOpenRouter_def)
next
  case (Inr st1)
  have h: "conversationHistory st1 = conversationHistory st" and "currentSessionId st1 = currentSessionId st"
    using issue_image_fields [OF Inr] by simp_all
  then have inv1: "log_inv st1" using assms by (simp add: log_inv_def)
  show ?thesis
    using Inr resume_image_history [OF inv1, of tId tTurn out] h
    by (simp add: sendImageToOpenRouter_def resume_image_result js_trim_image_sent
          split: http_outcome.splits)
qed

section \<open>Turns recorded by a send\<close>

text \<open>
  C1, amended. Take a state whose log satisfies \<open>log_inv\<close>. A call of
  \<open>sendTextToOpenRouter\<close> or \<open>sendImageToOpenRouter\<close> that throws leaves
  \<open>conversationHistory\<close> as it was. A call that returns appends exactly one turn when
  the reply is not empty (and, for a text, the text sent is not empty either): the trimmed
  input, or \<open>[Image sent]\<close> for an image, with the trimmed reply and the clock read for
  the turn. A call that returns with an empty reply appends nothing, successful as it is.\<close>

theorem send_appends_turn_iff_reply:
  "log_inv st \<Longrightarrow>
     conversationHistory (snd (sendTextToOpenRouter tId tTurn text session out st))
       = (case fst (sendTextToOpenRouter tId tTurn text session out st) of
            Inl e \<Rightarrow> conversationHistory st
          | Inr resp \<Rightarrow>
              if text \<noteq> [] \<and> str_or resp [] \<noteq> []
              then conversationHistory st @
                     [\<lparr>timestamp = tTurn, transcription = js_trim text,
                       ai_response = js_trim (str_or resp [])\<rparr>]
              else conversationHistory st)
   \<and> conversationHistory (snd (sendImageToOpenRouter tId tTurn d session out st))
       = (case fst (sendImageToOpenRouter tId tTurn d session out st) of
            Inl e \<Rightarrow> conversationHistory st
          | Inr resp \<Rightarrow>
              if str_or resp [] \<noteq> []
              then conversationHistory st @
                     [\<lparr>timestamp = tTurn, transcription = ''[Image sent]'',
                       ai_response = js_trim (str_or resp [])\<rparr>]
              else conversationHistory st)"
  using sendText_history sendImage_history by blast


lemma sample_usable: "usable sample_state (Some 0) = Some sample_session"
  by (simp add: usable_def deref_def sample_state_def sample_session_def)

lemma sample_sendText_result:
  "fst (sendTextToOpenRouter tId tTurn msg (Some 0) (HttpResolves resp) sample_state) = Inr resp"
  by (simp add: sendTextToOpenRouter_def sendTextToOpenRouter_issue_def sample_usable
        resume_text_result)

lemma sample_sendImage_result:
  "fst (sendImageToOpenRouter tId tTurn d (Some 0) (HttpResolves resp) sample_state) = Inr resp"
  by (simp add: sendImageToOpenRouter_def sendImageToOpenRouter_issue_def sample_usable
        resume_image_result)

lemma js_trim_hello: "js_trim ''hello '' = ''hello''"
  by (simp add: js_trim_def is_js_space_def)

lemma js_trim_hi: "js_trim ''hi'' = ''hi''"
  by (simp add: js_trim_def is_js_space_def)

theorem send_appends_turn_iff_reply_witness:
  "log_inv sample_state
   \<and> fst (sendTextToOpenRouter 1000 1001 ''hello '' (Some 0) (HttpResolves (Some ''hi''))
          sample_state) = Inr (Some ''hi'')
   \<and> conversationHistory (snd (sendTextToOpenRouter 1000 1001 ''hello '' (Some 0)
          (HttpResolves (Some ''hi'')) sample_state))
       = [sample_turn, \<lparr>timestamp = 1001, transcription = ''hello'', ai_response = ''hi''\<rparr>]
   \<and> conversationHistory (snd (sendImageToOpenRouter 1000 1001 ''AAAA'' (Some 0)
          (HttpResolves (Some ''hi'')) sample_state))
       = [sample_turn,
          \<lparr>timestamp = 1001, transcription = ''[Image sent]'', ai_response = ''hi''\<rparr>]"
  using send_appends_turn_iff_reply [OF log_inv_sample_state, of 1000 1001 "''hello ''" "Some 0"
          "HttpResolves (Some ''hi'')" "''AAAA''"]
  by (simp add: log_inv_sample_state sample_sendText_result sample_sendImage_result
        str_or_def js_trim_hello js_trim_hi)
     (simp add: sample_state_def)

text \<open>
  C1 as stated fails where the backend answers without content: the call returns the
  response, so it has succeeded, and the history is what it was before.\<close>

theorem send_empty_reply_counterexample:
  "fst (sendTextToOpenRouter 1000 1001 ''hello'' (Some 0) (HttpResolves None) sample_state)
     = Inr None
   \<and> conversationHistory (snd (sendTextToOpenRouter 1000 1001 ''hello'' (Some 0)
          (HttpResolves None) sample_state))
       = conversationHistory sample_state"
  using sendText_history [OF log_inv_sample_state, of 1000 1001 "''hello''" "Some 0"
          "HttpResolves None"]
  by (simp add: sample_sendText_result str_or_def)

text \<open>
  The older copy of \<open>sendImageToOpenRouter\<close> at the repository root has no test of the
  reply: an answer without content is recorded as a turn with an empty response.\<close>

lemma root_sendImageToOpenRouter_empty_reply:
  "conversationHistory (snd (root_sendImageToOpenRouter 1000 1001 ''AAAA'' (Some 0)
       (HttpResolves None) sample_state))
     = [sample_turn, \<lparr>timestamp = 1001, transcription = ''[Image sent]'', ai_response = []\<rparr>]"
proof -
  have d: "deref sample_state (Some 0) = Some sample_session"
    by (simp add: deref_def sample_state_def)
  have s: "apiKey sample_session \<noteq> [] \<and> model sample_session \<noteq> []"
    by (simp add: sample_session_def)
  show ?thesis
    by (simp add: root_sendImageToOpenRouter_def d s Let_def str_or_def sendToRenderer_def
          saveConversationTurn_def js_trim_image_sent)
       (simp add: sample_state_def)
qed

lemma close_gemini_frame:
  "close_gemini gStop gClose st = (rs, st1) \<Longrightarrow>
     heap st1 = heap st \<and> openRouterSessionRef st1 = openRouterSessionRef st
   \<and> conversationHistory st1 = conversationHistory st
   \<and> currentSessionId st1 = currentSessionId st
   \<and> http_log st1 = http_log st \<and> renderer_log st1 = renderer_log st"
  by (auto simp add: close_gemini_def gemini_called_def Let_def
        split: option.splits outcome.splits)

lemma close_gemini_None:
  "geminiSessionRef st = None \<Longrightarrow> close_gemini gStop gClose st = ([], st)"
  by (simp add: close_gemini_def)

lemma close_openrouter_None:
  "openRouterSessionRef st = None \<Longrightarrow> close_openrouter st = ([], st)"
  by (simp add: close_openrouter_def)

lemma close_openrouter_effect:
  "close_openrouter st = (rs, st2) \<Longrightarrow>
     openRouterSessionRef st2 = None
   \<and> length (heap st2) = length (heap st)
   \<and> usable st2 (openRouterSessionRef st) = None
   \<and> (\<forall>a. openRouterSessionRef st = Some a \<and> a < length (heap st) \<longrightarrow> \<not> active (heap st2 ! a))
   \<and> conversationHistory st2 = conversationHistory st
   \<and> currentSessionId st2 = currentSessionId st
   \<and> geminiSessionRef st2 = geminiSessionRef st
   \<and> http_log st2 = http_log st \<and> renderer_log st2 = renderer_log st"
  by (auto simp add: close_openrouter_def usable_def deref_def split: option.splits)

lemma close_session_split:
  "close_session gStop gClose st =
     (IpcSuccess (fst (close_gemini gStop gClose st)
                  @ fst (close_openrouter (snd (close_gemini gStop gClose st)))),
      snd (close_openrouter (snd (close_gemini gStop gClose st))))"
  by (simp add: close_session_def split_beta)

lemma close_session_effect:
  assumes "close_session gStop gClose st = (res, st')"
  shows "success res"
    and "openRouterSessionRef st' = None"
    and "usable st' (openRouterSessionRef st) = None"
    and "\<forall>a. openRouterSessionRef st = Some a \<and> a < length (heap st) \<longrightarrow> \<not> active (heap st' ! a)"
    and "conversationHistory st' = conversationHistory st"
    and "currentSessionId st' = currentSessionId st"
    and "http_log st' = http_log st"
    and "renderer_log st' = renderer_log st"
proof -
  obtain r1 st1 where g: "close_gemini gStop gClose st = (r1, st1)"
    by (cases "close_gemini gStop gClose st")
  obtain r2 st2 where o: "close_openrouter st1 = (r2, st2)"
    by (cases "close_openrouter st1")
  have eq: "res = IpcSuccess (r1 @ r2)" "st' = st2"
    using assms g o by (simp_all add: close_session_split)
  note f = close_gemini_frame [OF g] and e = close_openrouter_effect [OF o]
  show "success res" using eq by simp
  show "openRouterSessionRef st' = None" using eq e by simp
  show "usable st' (openRouterSessionRef st) = None" using eq e f by simp
  show "\<forall>a. openRouterSessionRef st = Some a \<and> a < length (heap st) \<longrightarrow> \<not> active (heap st' ! a)"
    using eq e f by simp
  show "conversationHistory st' = conversationHistory st" using eq e f by simp
  show "currentSessionId st' = currentSessionId st" using eq e f by simp
  show "http_log st' = http_log st" using eq e f by simp
  show "renderer_log st' = renderer_log st" using eq e f by simp
qed

lemma close_session_again:
  "openRouterSessionRef st = None \<Longrightarrow>
     success (fst (close_session gStop gClose st))
   \<and> heap (snd (close_session gStop gClose st)) = heap st
   \<and> openRouterSessionRef (snd (close_session gStop gClose st)) = None
   \<and> (geminiSessionRef st = None \<longrightarrow> close_session gStop gClose st = (IpcSuccess [], st))"
proof -
  assume n: "openRouterSessionRef st = None"
  obtain r1 st1 where g: "close_gemini gStop gClose st = (r1, st1)"
    by (cases "close_gemini gStop gClose st")
  have n1: "openRouterSessionRef st1 = None" "heap st1 = heap st"
    using close_gemini_frame [OF g] n by simp_all
  show ?thesis
    using g n1 close_openrouter_None [OF n1(1)] close_gemini_None [of st gStop gClose]
    by (auto simp add: close_session_split)
qed

lemma unusable_sendText:
  "usable st session = None \<Longrightarrow>
     sendTextToOpenRouter tId tTurn msg session out st = (Inl ''No active OpenRouter session'', st)"
  by (simp add: sendTextToOpenRouter_def sendTextToOpenRouter_issue_def)

lemma unusable_sendImage:
  "usable st session = None \<Longrightarrow>
     sendImageToOpenRouter tId tTurn d session out st = (Inl ''No active OpenRouter session'', st)"
  by (simp add: sendImageToOpenRouter_def sendImageToOpenRouter_issue_def)

lemma no_slot_send_text_message:
  "openRouterSessionRef st = None \<Longrightarrow> getCurrentModelType r = ''openrouter'' \<Longrightarrow>
     (js_trim msg \<noteq> [] \<longrightarrow>
        send_text_message tId tTurn r out gSend (JStr msg) st
          = (IpcFailure ''No active OpenRouter session'', st))
   \<and> \<not> success (fst (send_text_message tId tTurn r out gSend v st))
   \<and> snd (send_text_message tId tTurn r out gSend v st) = st"
  by (cases v) (auto simp add: send_text_message_def deref_def)

lemma no_slot_send_image_content:
  "openRouterSessionRef st = None \<Longrightarrow> getCurrentModelType r = ''openrouter'' \<Longrightarrow>
     (b \<noteq> [] \<longrightarrow>
        send_image_content tId tTurn dl r out gSend (JStr b) st
          = (IpcFailure ''No active OpenRouter session'', st))
   \<and> \<not> success (fst (send_image_content tId tTurn dl r out gSend v st))
   \<and> snd (send_image_content tId tTurn dl r out gSend v st) = st"
  by (cases v) (auto simp add: send_image_content_def deref_def)

section \<open>Sending after \<open>close-session\<close>\<close>

text \<open>
  C2, amended. \<open>close-session\<close> always returns \<open>{success: true}\<close>. It empties the
  OpenRouter slot and sets \<open>active\<close> to false in the session object the slot held. A
  second \<open>close-session\<close> succeeds again and leaves the session objects and the empty
  slot alone (it changes nothing at all once the Gemini slot is empty too). After the
  close, \<open>sendTextToOpenRouter\<close> and \<open>sendImageToOpenRouter\<close> called with the handle
  the slot held throw \<open>No active OpenRouter session\<close> with the state untouched, so
  without a request; the handlers \<open>openrouter-send-text-message\<close> and
  \<open>openrouter-send-image-content\<close> return that message as a failure. With openrouter as
  the provider, \<open>send-text-message\<close> and \<open>send-image-content\<close> fail for every
  argument with the state untouched, and the failure is
  \<open>No active OpenRouter session\<close> whenever the argument passes the handler's own test
  (a string that is not blank, respectively not empty).\<close>

theorem close_session_then_send:
  "close_session gStop gClose st = (res, st') \<Longrightarrow>
     success res
   \<and> openRouterSessionRef st' = None
   \<and> (\<forall>a. openRouterSessionRef st = Some a \<and> a < length (heap st) \<longrightarrow> \<not> active (heap st' ! a))
   \<and> success (fst (close_session gStopB gCloseB st'))
   \<and> heap (snd (close_session gStopB gCloseB st')) = heap st'
   \<and> openRouterSessionRef (snd (close_session gStopB gCloseB st')) = None
   \<and> (geminiSessionRef st' = None \<longrightarrow> close_session gStopB gCloseB st' = (IpcSuccess [], st'))
   \<and> sendTextToOpenRouter tId tTurn msg (openRouterSessionRef st) out st'
       = (Inl ''No active OpenRouter session'', st')
   \<and> sendImageToOpenRouter tId tTurn b (openRouterSessionRef st) out st'
       = (Inl ''No active OpenRouter session'', st')
   \<and> openrouter_send_text_message tId tTurn out msg st'
       = (IpcFailure ''No active OpenRouter session'', st')
   \<and> openrouter_send_image_content tId tTurn out b st'
       = (IpcFailure ''No active OpenRouter session'', st')
   \<and> (getCurrentModelType r = ''openrouter'' \<longrightarrow>
        (js_trim msg \<noteq> [] \<longrightarrow>
           send_text_message tId tTurn r out gSend (JStr msg) st'
             = (IpcFailure ''No active OpenRouter session'', st'))
      \<and> (b \<noteq> [] \<longrightarrow>
           send_image_content tId tTurn dl r out gSend (JStr b) st'
             = (IpcFailure ''No active OpenRouter session'', st'))
      \<and> \<not> success (fst (send_text_message tId tTurn r out gSend v st'))
      \<and> snd (send_text_message tId tTurn r out gSend v st') = st'
      \<and> \<not> success (fst (send_image_content tId tTurn dl r out gSend v st'))
      \<and> snd (send_image_content tId tTurn dl r out gSend v st') = st')"
proof -
  assume c: "close_session gStop gClose st = (res, st')"
  note e = close_session_effect [OF c]
  have 1: "success res" by (rule e(1))
  have 2: "openRouterSessionRef st' = None" by (rule e(2))
  have 3: "\<forall>a. openRouterSessionRef st = Some a \<and> a < length (heap st) \<longrightarrow> \<not> active (heap st' ! a)"
    by (rule e(4))
  note 4 = close_session_again [OF 2, of gStopB gCloseB]
  note 5 = unusable_sendText [OF e(3), of tId tTurn msg out]
  note 6 = unusable_sendImage [OF e(3), of tId tTurn b out]
  have 7: "openrouter_send_text_message tId tTurn out msg st'
       = (IpcFailure ''No active OpenRouter session'', st')"
    using 2 by (simp add: openrouter_send_text_message_def)
  have 8: "openrouter_send_image_content tId tTurn out b st'
       = (IpcFailure ''No active OpenRouter session'', st')"
    using 2 by (simp add: openrouter_send_image_content_def)
  have 9: "getCurrentModelType r = ''openrouter'' \<longrightarrow>
        (js_trim msg \<noteq> [] \<longrightarrow>
           send_text_message tId tTurn r out gSend (JStr msg) st'
             = (IpcFailure ''No active OpenRouter session'', st'))
      \<and> (b \<noteq> [] \<longrightarrow>
           send_image_content tId tTurn dl r out gSend (JStr b) st'
             = (IpcFailure ''No active OpenRouter session'', st'))
      \<and> \<not> success (fst (send_text_message tId tTurn r out gSend v st'))
      \<and> snd (send_text_message tId tTurn r out gSend v st') = st'
      \<and> \<not> success (fst (send_image_content tId tTurn dl r out gSend v st'))
      \<and> snd (send_image_content tId tTurn dl r out gSend v st') = st'"
    using no_slot_send_text_message [OF 2, of r msg tId tTurn out gSend v]
          no_slot_send_image_content [OF 2, of r b tId tTurn dl out gSend v]
    by blast
  show ?thesis using 1 2 3 4 5 6 7 8 9 by blast
qed

lemma sample_close:
  "close_session (Returns ()) (Returns ()) sample_state
     = (IpcSuccess [(''openrouter'', None)], sample_closed)"
  by (simp add: close_session_split close_gemini_def close_openrouter_def sample_state_def
        sample_closed_def)

lemma sample_closed_fields:
  "geminiSessionRef sample_closed = None" "heap sample_closed = [sample_session\<lparr>active := False\<rparr>]"
  "openRouterSessionRef sample_state = Some 0" "heap sample_state = [sample_session]"
  by (simp_all add: sample_closed_def sample_state_def)

theorem close_session_then_send_witness:
  "close_session (Returns ()) (Returns ()) sample_state
     = (IpcSuccess [(''openrouter'', None)], sample_closed)
   \<and> openRouterSessionRef sample_state = Some 0 \<and> 0 < length (heap sample_state)
   \<and> \<not> active (heap sample_closed ! 0)
   \<and> geminiSessionRef sample_closed = None
   \<and> close_session (Returns ()) (Returns ()) sample_closed = (IpcSuccess [], sample_closed)
   \<and> sendTextToOpenRouter 1000 1001 ''hello '' (Some 0) (HttpResolves (Some ''hi'')) sample_closed
       = (Inl ''No active OpenRouter session'', sample_closed)
   \<and> getCurrentModelType (ScriptItem (Some ''OpenRouter'')) = ''openrouter''
   \<and> js_trim ''hello '' \<noteq> []
   \<and> send_text_message 1000 1001 (ScriptItem (Some ''OpenRouter'')) (HttpResolves (Some ''hi''))
        (Returns ()) (JStr ''hello '') sample_closed
       = (IpcFailure ''No active OpenRouter session'', sample_closed)
   \<and> send_image_content 1000 1001 sample_decodedLength (ScriptItem (Some ''OpenRouter''))
        (HttpResolves (Some ''hi'')) (Returns ()) (JStr ''AAAA'') sample_closed
       = (IpcFailure ''No active OpenRouter session'', sample_closed)"
  using close_session_then_send [OF sample_close, where gStopB = "Returns ()"
          and gCloseB = "Returns ()" and tId = 1000 and tTurn = 1001 and msg = "''hello ''"
          and out = "HttpResolves (Some ''hi'')" and b = "''AAAA''"
          and r = "ScriptItem (Some ''OpenRouter'')" and gSend = "Returns ()" and dl = sample_decodedLength
          and v = "JStr ''hello ''"]
  by (simp add: sample_close sample_closed_fields getCurrentModelType_OpenRouter js_trim_hello)

text \<open>
  C2 as stated fails for a send whose text is blank: after the close, with openrouter as
  the provider, \<open>send-text-message\<close> answers \<open>Invalid text message\<close>, the test of the
  text coming before the test of the session.\<close>

theorem close_session_then_send_counterexample:
  "fst (send_text_message 1000 1001 (ScriptItem (Some ''OpenRouter''))
          (HttpResolves (Some ''hi'')) (Returns ()) (JStr ''   '')
          (snd (close_session (Returns ()) (Returns ()) sample_state)))
     = IpcFailure ''Invalid text message''"
  by (simp add: send_text_message_def js_trim_blank)

lemma resume_text_frame:
  "heap (snd (sendTextToOpenRouter_resume tId tTurn msg out st)) = heap st
   \<and> openRouterSessionRef (snd (sendTextToOpenRouter_resume tId tTurn msg out st))
       = openRouterSessionRef st"
  by (simp add: sendTextToOpenRouter_resume_def Let_def sendToRenderer_def
        saveConversationTurn_def initializeNewSession_def split: http_outcome.splits)

lemma resume_image_frame:
  "heap (snd (sendImageToOpenRouter_resume tId tTurn out st)) = heap st
   \<and> openRouterSessionRef (snd (sendImageToOpenRouter_resume tId tTurn out st))
       = openRouterSessionRef st"
  by (simp add: sendImageToOpenRouter_resume_def Let_def sendToRenderer_def
        saveConversationTurn_def initializeNewSession_def split: http_outcome.splits)

lemma saveConversationTurn_history_cong:
  "conversationHistory st = conversationHistory st' \<Longrightarrow>
   currentSessionId st = currentSessionId st' \<Longrightarrow>
     conversationHistory (saveConversationTurn tId tTurn a b st)
       = conversationHistory (saveConversationTurn tId tTurn a b st')"
  by (simp add: saveConversationTurn_def Let_def sendToRenderer_def initializeNewSession_def)

lemma resume_text_history_cong:
  "conversationHistory st = conversationHistory st' \<Longrightarrow>
   currentSessionId st = currentSessionId st' \<Longrightarrow>
     conversationHistory (snd (sendTextToOpenRouter_resume tId tTurn msg out st))
       = conversationHistory (snd (sendTextToOpenRouter_resume tId tTurn msg out st'))"
  using saveConversationTurn_history_cong
          [of "sendToRenderer n st" "sendToRenderer n st'" for n]
  by (simp add: sendTextToOpenRouter_resume_def Let_def sendToRenderer_def
        split: http_outcome.splits)

lemma resume_image_history_cong:
  "conversationHistory st = conversationHistory st' \<Longrightarrow>
   currentSessionId st = currentSessionId st' \<Longrightarrow>
     conversationHistory (snd (sendImageToOpenRouter_resume tId tTurn out st))
       = conversationHistory (snd (sendImageToOpenRouter_resume tId tTurn out st'))"
  using saveConversationTurn_history_cong
          [of "sendToRenderer n st" "sendToRenderer n st'" for n]
  by (simp add: sendImageToOpenRouter_resume_def Let_def sendToRenderer_def
        split: http_outcome.splits)

lemma usable_heap_cong: "heap a = heap b \<Longrightarrow> usable a s = usable b s"
  by (cases s) (simp_all add: usable_def deref_def)

section \<open>\<open>close-session\<close> while a send is waiting for the backend\<close>

text \<open>
  C3, amended. Let a call of \<open>sendTextToOpenRouter\<close> pass its entry test and issue its
  request, let \<open>close-session\<close> run while the call is suspended, and let the call then
  resume with whatever the backend gave. The resumed call writes no session object and
  leaves the slot empty, so the closed session stays inactive. But it does not look at
  \<open>active\<close> again: its result and its effect on the log are those it would have had
  without the close, and a reply that is not empty (to a text that is not empty) is appended
  to \<open>conversationHistory\<close> as a turn.\<close>

theorem close_during_send:
  "sendTextToOpenRouter_issue msg session st = Inr st_issued \<Longrightarrow>
   close_session gStop gClose st_issued = (res, st_closed) \<Longrightarrow>
   sendTextToOpenRouter_resume tId tTurn msg out st_closed = (r, st_done) \<Longrightarrow>
     heap st_done = heap st_closed
   \<and> openRouterSessionRef st_done = None
   \<and> usable st_done (openRouterSessionRef st) = None
   \<and> r = fst (sendTextToOpenRouter_resume tId tTurn msg out st_issued)
   \<and> conversationHistory st_done
       = conversationHistory (snd (sendTextToOpenRouter_resume tId tTurn msg out st_issued))
   \<and> (log_inv st \<and> msg \<noteq> [] \<and> out = HttpResolves (Some reply) \<and> reply \<noteq> [] \<longrightarrow>
        conversationHistory st_done
          = conversationHistory st @
              [\<lparr>timestamp = tTurn, transcription = js_trim msg, ai_response = js_trim reply\<rparr>])"
proof -
  assume i: "sendTextToOpenRouter_issue msg session st = Inr st_issued"
     and c: "close_session gStop gClose st_issued = (res, st_closed)"
     and s: "sendTextToOpenRouter_resume tId tTurn msg out st_closed = (r, st_done)"
  note fi = issue_text_fields [OF i]
  note e = close_session_effect [OF c]
  have st_done: "st_done = snd (sendTextToOpenRouter_resume tId tTurn msg out st_closed)"
    and r: "r = fst (sendTextToOpenRouter_resume tId tTurn msg out st_closed)"
    using s by simp_all
  have 1: "heap st_done = heap st_closed" and 2: "openRouterSessionRef st_done = None"
    using resume_text_frame [of tId tTurn msg out st_closed] st_done e(2) by simp_all
  have 3: "usable st_done (openRouterSessionRef st) = None"
    using usable_heap_cong [OF 1] e(3) fi by simp
  have 4: "r = fst (sendTextToOpenRouter_resume tId tTurn msg out st_issued)"
    using r by (simp add: resume_text_result)
  have 5: "conversationHistory st_done
       = conversationHistory (snd (sendTextToOpenRouter_resume tId tTurn msg out st_issued))"
    unfolding st_done by (rule resume_text_history_cong [OF e(5) e(6)])
  have 6: "log_inv st \<and> msg \<noteq> [] \<and> out = HttpResolves (Some reply) \<and> reply \<noteq> [] \<longrightarrow>
        conversationHistory st_done
          = conversationHistory st @
              [\<lparr>timestamp = tTurn, transcription = js_trim msg, ai_response = js_trim reply\<rparr>]"
  proof (intro impI, elim conjE)
    assume inv: "log_inv st" and m: "msg \<noteq> []" and o: "out = HttpResolves (Some reply)"
       and rp: "reply \<noteq> []"
    have inv1: "log_inv st_issued" using inv fi by (simp add: log_inv_def)
    show "conversationHistory st_done
          = conversationHistory st @
              [\<lparr>timestamp = tTurn, transcription = js_trim msg, ai_response = js_trim reply\<rparr>]"
      using 5 resume_text_history [OF inv1, of tId tTurn msg out] m o rp fi
      by (simp add: str_or_def)
  qed
  show ?thesis using 1 2 3 4 5 6 by blast
qed

lemma sample_issue: "sendTextToOpenRouter_issue ''q'' (Some 0) sample_state = Inr sample_issued"
  by (simp add: sendTextToOpenRouter_issue_def sample_usable sample_issued_def)
     (simp add: sample_session_def sample_state_def)

lemma sample_issued_close:
  "snd (close_session (Returns ()) (Returns ()) sample_issued)
     = sample_issued\<lparr>heap := [sample_session\<lparr>active := False\<rparr>], openRouterSessionRef := None\<rparr>"
  by (simp add: close_session_split close_gemini_def close_openrouter_def sample_issued_def
        sample_state_def)

lemma js_trim_q: "js_trim ''q'' = ''q''" and js_trim_a: "js_trim ''a'' = ''a''"
  by (simp_all add: js_trim_def is_js_space_def)

theorem close_during_send_witness:
  "sendTextToOpenRouter_issue ''q'' (Some 0) sample_state = Inr sample_issued
   \<and> log_inv sample_state \<and> ''q'' \<noteq> [] \<and> ''a'' \<noteq> []
   \<and> openRouterSessionRef sample_state = Some 0
   \<and> usable (snd (sendTextToOpenRouter_resume 1000 1001 ''q'' (HttpResolves (Some ''a''))
          (snd (close_session (Returns ()) (Returns ()) sample_issued)))) (Some 0) = None
   \<and> conversationHistory
        (snd (sendTextToOpenRouter_resume 1000 1001 ''q'' (HttpResolves (Some ''a''))
          (snd (close_session (Returns ()) (Returns ()) sample_issued))))
       = [sample_turn, \<lparr>timestamp = 1001, transcription = ''q'', ai_response = ''a''\<rparr>]"
proof -
  have c: "close_session (Returns ()) (Returns ()) sample_issued
             = (fst (close_session (Returns ()) (Returns ()) sample_issued),
                snd (close_session (Returns ()) (Returns ()) sample_issued))"
    by simp
  have s: "sendTextToOpenRouter_resume 1000 1001 ''q'' (HttpResolves (Some ''a''))
             (snd (close_session (Returns ()) (Returns ()) sample_issued))
           = (fst (sendTextToOpenRouter_resume 1000 1001 ''q'' (HttpResolves (Some ''a''))
                (snd (close_session (Returns ()) (Returns ()) sample_issued))),
              snd (sendTextToOpenRouter_resume 1000 1001 ''q'' (HttpResolves (Some ''a''))
                (snd (close_session (Returns ()) (Returns ()) sample_issued))))"
    by simp
  note t = close_during_send [OF sample_issue c s, of "''a''"]
  have h: "conversationHistory sample_state = [sample_turn]"
    by (simp add: sample_state_def)
  have u: "usable (snd (sendTextToOpenRouter_resume 1000 1001 ''q'' (HttpResolves (Some ''a''))
          (snd (close_session (Returns ()) (Returns ()) sample_issued)))) (Some 0) = None"
    using t sample_closed_fields(3) by simp
  have "conversationHistory
        (snd (sendTextToOpenRouter_resume 1000 1001 ''q'' (HttpResolves (Some ''a''))
          (snd (close_session (Returns ()) (Returns ()) sample_issued))))
       = conversationHistory sample_state @
           [\<lparr>timestamp = 1001, transcription = js_trim ''q'', ai_response = js_trim ''a''\<rparr>]"
    using t log_inv_sample_state by blast
  then show ?thesis
    using u by (simp add: sample_issue log_inv_sample_state sample_closed_fields h js_trim_q js_trim_a)
qed

text \<open>
  C3 as stated fails on the sample state: the request for \<open>q\<close> is issued, the session
  is closed, the reply \<open>a\<close> arrives, and the turn is in the history.\<close>

theorem close_during_send_counterexample:
  "sendTextToOpenRouter_issue ''q'' (Some 0) sample_state = Inr sample_issued
   \<and> fst (close_session (Returns ()) (Returns ()) sample_issued)
       = IpcSuccess [(''openrouter'', None)]
   \<and> conversationHistory
        (snd (sendTextToOpenRouter_resume 1000 1001 ''q'' (HttpResolves (Some ''a''))
          (snd (close_session (Returns ()) (Returns ()) sample_issued))))
       = [sample_turn, \<lparr>timestamp = 1001, transcription = ''q'', ai_response = ''a''\<rparr>]"
  by (simp add: sample_issue sample_issued_close)
     (simp add: close_session_split close_gemini_def close_openrouter_def
        sendTextToOpenRouter_resume_def saveConversationTurn_def sendToRenderer_def Let_def
        str_or_def js_trim_q js_trim_a sample_issued_def sample_state_def)

text \<open>The same for a send of an image.\<close>

lemma close_during_image_send:
  "sendImageToOpenRouter_issue d session st = Inr st_issued \<Longrightarrow>
   close_session gStop gClose st_issued = (res, st_closed) \<Longrightarrow>
   sendImageToOpenRouter_resume tId tTurn out st_closed = (r, st_done) \<Longrightarrow>
     heap st_done = heap st_closed
   \<and> openRouterSessionRef st_done = None
   \<and> usable st_done (openRouterSessionRef st) = None
   \<and> r = fst (sendImageToOpenRouter_resume tId tTurn out st_issued)
   \<and> conversationHistory st_done
       = conversationHistory (snd (sendImageToOpenRouter_resume tId tTurn out st_issued))"
proof -
  assume i: "sendImageToOpenRouter_issue d session st = Inr st_issued"
     and c: "close_session gStop gClose st_issued = (res, st_closed)"
     and s: "sendImageToOpenRouter_resume tId tTurn out st_closed = (r, st_done)"
  note fi = issue_image_fields [OF i]
  note e = close_session_effect [OF c]
  have st_done: "st_done = snd (sendImageToOpenRouter_resume tId tTurn out st_closed)"
    and r: "r = fst (sendImageToOpenRouter_resume tId tTurn out st_closed)"
    using s by simp_all
  have 1: "heap st_done = heap st_closed" and 2: "openRouterSessionRef st_done = None"
    using resume_image_frame [of tId tTurn out st_closed] st_done e(2) by simp_all
  have 3: "usable st_done (openRouterSessionRef st) = None"
    using usable_heap_cong [OF 1] e(3) fi by simp
  have 4: "r = fst (sendImageToOpenRouter_resume tId tTurn out st_issued)"
    using r by (simp add: resume_image_result)
  have 5: "conversationHistory st_done
       = conversationHistory (snd (sendImageToOpenRouter_resume tId tTurn out st_issued))"
    unfolding st_done by (rule resume_image_history_cong [OF e(5) e(6)])
  show ?thesis using 1 2 3 4 5 by blast
qed


lemma of_char_digit: "d < 10 \<Longrightarrow> of_char (char_of (48 + d) :: char) = 48 + (d :: nat)"
  by simp

lemma digits_value_snoc: "digits_value (s @ [c]) = digits_value s * 10 + (of_char c - 48)"
  by (simp add: digits_value_def)

lemma digits_value_toString_nat: "digits_value (toString_nat n) = n"
proof (induction n rule: toString_nat.induct)
  case (1 n)
  show ?case
  proof (cases "n < 10")
    case True
    have "toString_nat n = [char_of (48 + n)]"
      using True by (subst toString_nat.simps) simp
    then show ?thesis
      using of_char_digit [OF True] by (simp add: digits_value_def)
  next
    case False
    have m: "n mod 10 < 10" by simp
    have e: "toString_nat n = toString_nat (n div 10) @ [char_of (48 + n mod 10)]"
      using False by (subst toString_nat.simps) simp
    have "digits_value (toString_nat n) = (n div 10) * 10 + n mod 10"
      unfolding e digits_value_snoc using "1.IH" [OF False] of_char_digit [OF m] by simp
    then show ?thesis by simp
  qed
qed

lemma toString_nat_inject: "toString_nat a = toString_nat b \<Longrightarrow> a = b"
proof -
  assume "toString_nat a = toString_nat b"
  then have "digits_value (toString_nat a) = digits_value (toString_nat b)" by (rule arg_cong)
  then show "a = b" by (simp only: digits_value_toString_nat)
qed

lemma toString_nat_800: "toString_nat 800 = ''800''"
  by code_simp

lemma toString_nat_1001: "toString_nat 1001 = ''1001''"
  by code_simp

section \<open>\<open>start-new-session\<close>\<close>

text \<open>
  C6, amended. With openrouter as the provider, \<open>start-new-session\<close> succeeds, empties
  the turn history and stores as session id the decimal numeral of the clock read by
  \<open>initializeNewSession\<close>. The new id differs from the previous one whenever that was
  the numeral of a different clock reading; two calls within the same millisecond store
  the same id.\<close>

theorem start_new_session_resets:
  "getCurrentModelType r = ''openrouter'' \<Longrightarrow>
     success (fst (start_new_session tNew tRet r gNew st))
   \<and> currentSessionId (snd (start_new_session tNew tRet r gNew st)) = Some (toString_nat tNew)
   \<and> conversationHistory (snd (start_new_session tNew tRet r gNew st)) = []
   \<and> (currentSessionId st = Some (toString_nat tPrev) \<and> tPrev \<noteq> tNew \<longrightarrow>
        currentSessionId (snd (start_new_session tNew tRet r gNew st)) \<noteq> currentSessionId st)"
  using toString_nat_inject [of tPrev tNew]
  by (auto simp add: start_new_session_def initializeNewSession_def)

theorem start_new_session_resets_witness:
  "getCurrentModelType (ScriptItem (Some ''OpenRouter'')) = ''openrouter''
   \<and> currentSessionId sample_state = Some (toString_nat 800) \<and> (800 :: nat) \<noteq> 1000
   \<and> success (fst (start_new_session 1000 1001 (ScriptItem (Some ''OpenRouter'')) (Returns ())
         sample_state))
   \<and> currentSessionId (snd (start_new_session 1000 1001 (ScriptItem (Some ''OpenRouter''))
         (Returns ()) sample_state)) = Some ''1000''
   \<and> conversationHistory (snd (start_new_session 1000 1001 (ScriptItem (Some ''OpenRouter''))
         (Returns ()) sample_state)) = []
   \<and> currentSessionId (snd (start_new_session 1000 1001 (ScriptItem (Some ''OpenRouter''))
         (Returns ()) sample_state)) \<noteq> currentSessionId sample_state"
  using start_new_session_resets [where r = "ScriptItem (Some ''OpenRouter'')" and tNew = 1000
          and tRet = 1001 and gNew = "Returns ()" and st = sample_state and tPrev = 800]
  by (simp add: getCurrentModelType_OpenRouter toString_nat_800 toString_nat_1000)
     (simp add: sample_state_def)

text \<open>
  C6 as stated fails for two consecutive calls that read the same clock value: both
  succeed, and the session id after the second is the id after the first.\<close>

theorem start_new_session_same_millisecond_counterexample:
  "success (fst (start_new_session 1000 1000 (ScriptItem (Some ''OpenRouter'')) (Returns ())
       (snd (start_new_session 1000 1000 (ScriptItem (Some ''OpenRouter'')) (Returns ())
          sample_state))))
   \<and> currentSessionId
       (snd (start_new_session 1000 1000 (ScriptItem (Some ''OpenRouter'')) (Returns ())
         (snd (start_new_session 1000 1000 (ScriptItem (Some ''OpenRouter'')) (Returns ())
            sample_state))))
     = currentSessionId
         (snd (start_new_session 1000 1000 (ScriptItem (Some ''OpenRouter'')) (Returns ())
            sample_state))"
  by (simp add: start_new_session_def getCurrentModelType_OpenRouter initializeNewSession_def)

text \<open>
  The \<open>sessionId\<close> of the result is a second reading of the clock, not the id stored;
  when the clock ticks in between, the two differ. The handler
  \<open>openrouter-start-new-session\<close> returns the stored id.\<close>

lemma start_new_session_returned_id:
  "fst (start_new_session 1000 1001 (ScriptItem (Some ''OpenRouter'')) (Returns ()) sample_state)
     = IpcSuccess ''1001''
   \<and> currentSessionId (snd (start_new_session 1000 1001 (ScriptItem (Some ''OpenRouter''))
         (Returns ()) sample_state)) = Some ''1000''"
  by (simp add: start_new_session_def getCurrentModelType_OpenRouter initializeNewSession_def
        toString_nat_1000 toString_nat_1001)

lemma openrouter_start_new_session_returned_id:
  "fst (openrouter_start_new_session now st)
     = IpcSuccess (currentSessionId (snd (openrouter_start_new_session now st)))"
  by (simp add: openrouter_start_new_session_def Let_def)

section \<open>The log invariant is kept\<close>

text \<open>\<open>log_inv\<close> holds when the modules are loaded (lemma \<open>log_inv_initial_state\<close>)
  and after each operation that writes the log or the session id.\<close>

lemma log_inv_sendTextToOpenRouter:
  "log_inv st \<Longrightarrow> log_inv (snd (sendTextToOpenRouter tId tTurn msg session out st))"
  using log_inv_saveConversationTurn
  by (auto simp add: sendTextToOpenRouter_def sendTextToOpenRouter_issue_def
        sendTextToOpenRouter_resume_def Let_def log_inv_def sendToRenderer_def
        split: option.splits http_outcome.splits)

lemma log_inv_sendImageToOpenRouter:
  "log_inv st \<Longrightarrow> log_inv (snd (sendImageToOpenRouter tId tTurn d session out st))"
  using log_inv_saveConversationTurn
  by (auto simp add: sendImageToOpenRouter_def sendImageToOpenRouter_issue_def
        sendImageToOpenRouter_resume_def Let_def log_inv_def sendToRenderer_def
        split: option.splits http_outcome.splits)

lemma log_inv_initializeOpenRouterSession:
  "log_inv st \<Longrightarrow>
     log_inv (snd (initializeOpenRouterSession gsp now k m cp prof lang isRec st))"
  by (simp add: initializeOpenRouterSession_def Let_def log_inv_def sendToRenderer_def
        initializeNewSession_def)

lemma log_inv_close_session:
  "log_inv st \<Longrightarrow> log_inv (snd (close_session gStop gClose st))"
  using close_session_effect(5,6) [of gStop gClose st
          "fst (close_session gStop gClose st)" "snd (close_session gStop gClose st)"]
  by (simp add: log_inv_def)

lemma log_inv_start_new_session:
  "log_inv st \<Longrightarrow> log_inv (snd (start_new_session tNew tRet r gNew st))"
  by (cases gNew)
     (simp_all add: start_new_session_def log_inv_def initializeNewSession_def
        gemini_called_def Let_def)

section \<open>A second initialisation while one is pending\<close>

lemma initialize_model_split:
  "initialize_model gsp now r orModel gInit k cp prof lang st
     = (case initialize_model_entry k of
          Inl e \<Rightarrow> (IpcFailure e, st)
        | Inr s \<Rightarrow> initialize_model_resume gsp now r orModel gInit s cp prof lang st)"
  by (cases k) (simp_all add: initialize_model_def initialize_model_entry_def
        initialize_model_resume_def)

lemma busy_flag_rejects:
  "isInitializingSession st \<Longrightarrow>
     initializeOpenRouterSession gsp now k m cp prof lang isRec st = (None, st)
   \<and> openrouter_initialize_session gsp now k m cp prof lang st
       = (IpcFailure ''Failed to initialize OpenRouter session'', st)
   \<and> (getCurrentModelType r = ''openrouter'' \<and> js_trim s \<noteq> [] \<longrightarrow>
        initialize_model gsp now r (Returns item) gInit (JStr s) cp prof lang st
        = (IpcFailure ''Failed to initialize OpenRouter session'', st))"
  by (auto simp add: initializeOpenRouterSession_def openrouter_initialize_session_def
        initialize_model_def)

lemma flag_initializeOpenRouterSession:
  "isInitializingSession (snd (initializeOpenRouterSession gsp now k m cp prof lang isRec st))
     = isInitializingSession st"
  by (simp add: initializeOpenRouterSession_def Let_def sendToRenderer_def
        initializeNewSession_def)

lemma created_initializeOpenRouterSession:
  "\<not> isInitializingSession st \<Longrightarrow>
     fst (initializeOpenRouterSession gsp now k m cp prof lang isRec st) = Some (length (heap st))"
  by (simp add: initializeOpenRouterSession_def Let_def sendToRenderer_def
        initializeNewSession_def)

lemma flag_initialize_model_resume:
  "isInitializingSession (snd (initialize_model_resume gsp now r orModel gInit s cp prof lang st))
     = isInitializingSession st"
  using flag_initializeOpenRouterSession
          [of gsp now "js_trim s" "str_or item ''anthropic/claude-3.5-sonnet''" cp prof lang False st
           for item]
  by (auto simp add: initialize_model_resume_def gemini_called_def Let_def split_beta
        split: outcome.splits option.splits prod.splits)

lemma flag_initialize_model:
  "isInitializingSession (snd (initialize_model gsp now r orModel gInit k cp prof lang st))
     = isInitializingSession st"
  by (simp add: initialize_model_split flag_initialize_model_resume split: sum.splits)

lemma flag_openrouter_initialize_session:
  "isInitializingSession (snd (openrouter_initialize_session gsp now k m cp prof lang st))
     = isInitializingSession st"
  using flag_initializeOpenRouterSession [of gsp now k m cp prof lang False st]
  by (auto simp add: openrouter_initialize_session_def split: prod.splits option.splits)

lemma flag_saveConversationTurn:
  "isInitializingSession (saveConversationTurn tId tTurn a b st) = isInitializingSession st"
  by (simp add: saveConversationTurn_def Let_def sendToRenderer_def initializeNewSession_def)

lemma flag_text_issue:
  "sendTextToOpenRouter_issue msg session st = Inr st' \<Longrightarrow>
     isInitializingSession st' = isInitializingSession st"
  by (auto simp add: sendTextToOpenRouter_issue_def split: option.splits)

lemma flag_image_issue:
  "sendImageToOpenRouter_issue d session st = Inr st' \<Longrightarrow>
     isInitializingSession st' = isInitializingSession st"
  by (auto simp add: sendImageToOpenRouter_issue_def split: option.splits)

lemma flag_text_resume:
  "isInitializingSession (snd (sendTextToOpenRouter_resume tId tTurn msg out st))
     = isInitializingSession st"
  by (simp add: sendTextToOpenRouter_resume_def Let_def sendToRenderer_def
        flag_saveConversationTurn split: http_outcome.splits)

lemma flag_image_resume:
  "isInitializingSession (snd (sendImageToOpenRouter_resume tId tTurn out st))
     = isInitializingSession st"
  by (simp add: sendImageToOpenRouter_resume_def Let_def sendToRenderer_def
        flag_saveConversationTurn split: http_outcome.splits)

lemma flag_sendTextToOpenRouter:
  "isInitializingSession (snd (sendTextToOpenRouter tId tTurn msg session out st))
     = isInitializingSession st"
  by (cases "sendTextToOpenRouter_issue msg session st")
     (simp_all add: sendTextToOpenRouter_def flag_text_resume flag_text_issue)

lemma flag_sendImageToOpenRouter:
  "isInitializingSession (snd (sendImageToOpenRouter tId tTurn d session out st))
     = isInitializingSession st"
  by (cases "sendImageToOpenRouter_issue d session st")
     (simp_all add: sendImageToOpenRouter_def flag_image_resume flag_image_issue)

lemma snd_case_result:
  "snd (case x of (Inl msg, st') \<Rightarrow> (f msg, st') | (Inr resp, st') \<Rightarrow> (g resp, st')) = snd x"
  by (cases x; cases "fst x") auto

lemma flag_send_text_message:
  "isInitializingSession (snd (send_text_message tId tTurn r out gSend v st))
     = isInitializingSession st"
  by (cases v)
     (simp_all add: send_text_message_def gemini_called_def Let_def snd_case_result
        flag_sendTextToOpenRouter split: option.splits outcome.splits)

lemma flag_send_image_content:
  "isInitializingSession (snd (send_image_content tId tTurn dl r out gSend v st))
     = isInitializingSession st"
  by (cases v)
     (simp_all add: send_image_content_def gemini_called_def Let_def snd_case_result
        flag_sendImageToOpenRouter split: option.splits outcome.splits)

lemma flag_send_audio_content:
  "isInitializingSession (snd (send_audio_content r gSend v mimeType st))
     = isInitializingSession st"
  by (cases v)
     (auto simp add: send_audio_content_def gemini_called_def Let_def
        split: option.splits outcome.splits)

lemma flag_openrouter_send_text_message:
  "isInitializingSession (snd (openrouter_send_text_message tId tTurn out msg st))
     = isInitializingSession st"
  by (simp add: openrouter_send_text_message_def snd_case_result flag_sendTextToOpenRouter)

lemma flag_openrouter_send_image_content:
  "isInitializingSession (snd (openrouter_send_image_content tId tTurn out d st))
     = isInitializingSession st"
  by (simp add: openrouter_send_image_content_def snd_case_result flag_sendImageToOpenRouter)

lemma flag_close_session:
  "isInitializingSession (snd (close_session gStop gClose st)) = isInitializingSession st"
  by (auto simp add: close_session_split close_gemini_def close_openrouter_def
        gemini_called_def Let_def split: option.splits outcome.splits)

lemma flag_start_new_session:
  "isInitializingSession (snd (start_new_session tNew tRet r gNew st)) = isInitializingSession st"
  by (cases gNew)
     (simp_all add: start_new_session_def initializeNewSession_def gemini_called_def Let_def)

lemma flag_openrouter_start_new_session:
  "isInitializingSession (snd (openrouter_start_new_session now st)) = isInitializingSession st"
  by (simp add: openrouter_start_new_session_def Let_def initializeNewSession_def)

lemma reachable_flag_clear: "reachable st \<Longrightarrow> \<not> isInitializingSession st"
proof (induction rule: reachable.induct)
  case at_load
  show ?case by (simp add: initial_state_def)
next
  case (after_text_issue st msg session st')
  then show ?case using flag_text_issue by simp
next
  case (after_image_issue st d session st')
  then show ?case using flag_image_issue by simp
qed (simp_all add: flag_initialize_model flag_initialize_model_resume
       flag_openrouter_initialize_session flag_text_resume flag_image_resume
       flag_send_text_message flag_send_image_content flag_send_audio_content
       flag_openrouter_send_text_message flag_openrouter_send_image_content
       flag_close_session flag_start_new_session flag_openrouter_start_new_session)

lemma resume_creates_session:
  assumes "\<not> isInitializingSession st" and "getCurrentModelType r = ''openrouter''"
  shows "fst (initialize_model_resume gsp now r (Returns item) gInit s cp prof lang st)
           = IpcSuccess ()
       \<and> openRouterSessionRef
           (snd (initialize_model_resume gsp now r (Returns item) gInit s cp prof lang st))
           = Some (length (heap st))
       \<and> lastSessionParams
           (snd (initialize_model_resume gsp now r (Returns item) gInit s cp prof lang st))
           = Some \<lparr>params_apiKey = js_trim s,
                   params_model = str_or item ''anthropic/claude-3.5-sonnet'',
                   params_customPrompt = cp, params_profile = prof, params_language = lang\<rparr>
       \<and> conversationHistory
           (snd (initialize_model_resume gsp now r (Returns item) gInit s cp prof lang st)) = []"
  using assms
  by (simp add: initialize_model_resume_def initializeOpenRouterSession_def Let_def
        sendToRenderer_def initializeNewSession_def)


lemma js_trim_sk: "js_trim ''sk-A'' = ''sk-A''" and js_trim_sk_B: "js_trim ''sk-B'' = ''sk-B''"
  by (simp_all add: js_trim_def is_js_space_def)

lemma entry_sk: "initialize_model_entry (JStr ''sk-A'') = Inr ''sk-A''"
  and entry_sk_B: "initialize_model_entry (JStr ''sk-B'') = Inr ''sk-B''"
  by (simp_all add: initialize_model_entry_def js_trim_sk js_trim_sk_B)

lemma reachable_sample_first_initialized: "reachable sample_first_initialized"
  unfolding sample_first_initialized_def
  by (rule reachable.after_initialize_model_resume) (rule reachable.at_load)

lemma heap_sample_first_initialized: "length (heap sample_first_initialized) = 1"
  by (simp add: sample_first_initialized_def initialize_model_resume_def
        getCurrentModelType_OpenRouter initializeOpenRouterSession_def Let_def
        sendToRenderer_def initializeNewSession_def initial_state_def)

text \<open>
  C5, amended. A call of \<open>initializeOpenRouterSession\<close> that finds
  \<open>isInitializingSession\<close> set returns \<open>false\<close> at once and changes nothing, and the
  handlers report \<open>{success: false, error: 'Failed to initialize OpenRouter session'}\<close>
  with the state unchanged. But the function sets the flag and clears it again without
  suspending in between, so it leaves the flag as it found it, and the flag is clear in
  every state of a run. Hence no initialisation is turned away in a run: a call of
  \<open>initializeOpenRouterSession\<close> creates its session, and an \<open>initialize-model\<close> that was
  pending at its suspension while other handlers ran (other initialisations among them)
  succeeds when it resumes, with openrouter as the provider: it puts its new session in
  the slot, stores its own parameters and starts a new log.\<close>

theorem initialize_while_pending:
  "(isInitializingSession st \<longrightarrow>
       initializeOpenRouterSession gsp now k m cp prof lang isRec st = (None, st)
     \<and> openrouter_initialize_session gsp now k m cp prof lang st
         = (IpcFailure ''Failed to initialize OpenRouter session'', st)
     \<and> (getCurrentModelType r = ''openrouter'' \<and> js_trim s \<noteq> [] \<longrightarrow>
          initialize_model gsp now r (Returns item) gInit (JStr s) cp prof lang st
          = (IpcFailure ''Failed to initialize OpenRouter session'', st)))
   \<and> isInitializingSession (snd (initializeOpenRouterSession gsp now k m cp prof lang isRec st))
       = isInitializingSession st
   \<and> (reachable st \<longrightarrow>
         \<not> isInitializingSession st
       \<and> fst (initializeOpenRouterSession gsp now k m cp prof lang isRec st)
           = Some (length (heap st))
       \<and> (getCurrentModelType r = ''openrouter'' \<and> initialize_model_entry key = Inr s \<longrightarrow>
            fst (initialize_model_resume gsp now r (Returns item) gInit s cp prof lang st)
              = IpcSuccess ()
          \<and> openRouterSessionRef
              (snd (initialize_model_resume gsp now r (Returns item) gInit s cp prof lang st))
              = Some (length (heap st))
          \<and> lastSessionParams
              (snd (initialize_model_resume gsp now r (Returns item) gInit s cp prof lang st))
              = Some \<lparr>params_apiKey = js_trim s,
                      params_model = str_or item ''anthropic/claude-3.5-sonnet'',
                      params_customPrompt = cp, params_profile = prof,
                      params_language = lang\<rparr>
          \<and> conversationHistory
              (snd (initialize_model_resume gsp now r (Returns item) gInit s cp prof lang st))
              = []))"
proof (intro conjI impI)
  assume "isInitializingSession st"
  note b = busy_flag_rejects [OF this, of gsp now k m cp prof lang isRec r s item gInit]
  show "initializeOpenRouterSession gsp now k m cp prof lang isRec st = (None, st)"
    using b by blast
  show "openrouter_initialize_session gsp now k m cp prof lang st
         = (IpcFailure ''Failed to initialize OpenRouter session'', st)"
    using b by blast
  show "initialize_model gsp now r (Returns item) gInit (JStr s) cp prof lang st
          = (IpcFailure ''Failed to initialize OpenRouter session'', st)"
    if "getCurrentModelType r = ''openrouter'' \<and> js_trim s \<noteq> []"
    using b that by blast
next
  show "isInitializingSession (snd (initializeOpenRouterSession gsp now k m cp prof lang isRec st))
       = isInitializingSession st"
    by (rule flag_initializeOpenRouterSession)
next
  assume "reachable st"
  then show c: "\<not> isInitializingSession st" by (rule reachable_flag_clear)
  show "fst (initializeOpenRouterSession gsp now k m cp prof lang isRec st)
           = Some (length (heap st))"
    by (rule created_initializeOpenRouterSession [OF c])
  assume "getCurrentModelType r = ''openrouter'' \<and> initialize_model_entry key = Inr s"
  then have o: "getCurrentModelType r = ''openrouter''" by simp
  note p = resume_creates_session [OF c o, of gsp now item gInit s cp prof lang]
  show "fst (initialize_model_resume gsp now r (Returns item) gInit s cp prof lang st)
              = IpcSuccess ()"
    using p by blast
  show "openRouterSessionRef
              (snd (initialize_model_resume gsp now r (Returns item) gInit s cp prof lang st))
              = Some (length (heap st))"
    using p by blast
  show "lastSessionParams
              (snd (initialize_model_resume gsp now r (Returns item) gInit s cp prof lang st))
              = Some \<lparr>params_apiKey = js_trim s,
                      params_model = str_or item ''anthropic/claude-3.5-sonnet'',
                      params_customPrompt = cp, params_profile = prof,
                      params_language = lang\<rparr>"
    using p by blast
  show "conversationHistory
              (snd (initialize_model_resume gsp now r (Returns item) gInit s cp prof lang st))
              = []"
    using p by blast
qed

theorem initialize_while_pending_witness:
  "isInitializingSession (sample_state\<lparr>isInitializingSession := True\<rparr>)
   \<and> initializeOpenRouterSession sample_prompt 1000 ''sk-1'' ''m1'' [] ''exam'' ''en-US'' False
        (sample_state\<lparr>isInitializingSession := True\<rparr>)
       = (None, sample_state\<lparr>isInitializingSession := True\<rparr>)
   \<and> js_trim '' sk-1 '' \<noteq> []
   \<and> initialize_model sample_prompt 1000 (ScriptItem (Some ''OpenRouter'')) (Returns None)
        (Returns None) (JStr '' sk-1 '') [] ''exam'' ''en-US''
        (sample_state\<lparr>isInitializingSession := True\<rparr>)
       = (IpcFailure ''Failed to initialize OpenRouter session'',
          sample_state\<lparr>isInitializingSession := True\<rparr>)
   \<and> reachable sample_first_initialized
   \<and> getCurrentModelType (ScriptItem (Some ''OpenRouter'')) = ''openrouter''
   \<and> initialize_model_entry (JStr ''sk-B'') = Inr ''sk-B''
   \<and> \<not> isInitializingSession sample_first_initialized
   \<and> fst (initialize_model_resume sample_prompt 1001 (ScriptItem (Some ''OpenRouter''))
          (Returns (Some ''m2'')) (Returns None) ''sk-B'' [] ''exam'' ''en-US''
          sample_first_initialized) = IpcSuccess ()
   \<and> openRouterSessionRef
        (snd (initialize_model_resume sample_prompt 1001 (ScriptItem (Some ''OpenRouter''))
          (Returns (Some ''m2'')) (Returns None) ''sk-B'' [] ''exam'' ''en-US''
          sample_first_initialized)) = Some 1
   \<and> lastSessionParams
        (snd (initialize_model_resume sample_prompt 1001 (ScriptItem (Some ''OpenRouter''))
          (Returns (Some ''m2'')) (Returns None) ''sk-B'' [] ''exam'' ''en-US''
          sample_first_initialized))
       = Some \<lparr>params_apiKey = ''sk-B'', params_model = ''m2'', params_customPrompt = [],
               params_profile = ''exam'', params_language = ''en-US''\<rparr>"
  using initialize_while_pending [where st = "sample_state\<lparr>isInitializingSession := True\<rparr>"
          and gsp = sample_prompt and now = 1000 and k = "''sk-1''" and m = "''m1''"
          and cp = "[]" and prof = "''exam''" and lang = "''en-US''" and isRec = False
          and r = "ScriptItem (Some ''OpenRouter'')" and s = "'' sk-1 ''" and item = None
          and gInit = "Returns None" and key = "JStr '' sk-1 ''"]
        initialize_while_pending [where st = sample_first_initialized
          and gsp = sample_prompt and now = 1001 and k = "''sk-B''" and m = "''m2''"
          and cp = "[]" and prof = "''exam''" and lang = "''en-US''" and isRec = False
          and r = "ScriptItem (Some ''OpenRouter'')" and s = "''sk-B''"
          and item = "Some ''m2''" and gInit = "Returns None" and key = "JStr ''sk-B''"]
  by (simp add: getCurrentModelType_OpenRouter entry_sk_B reachable_sample_first_initialized
        heap_sample_first_initialized js_trim_sk_B js_trim_key str_or_def)

text \<open>
  C5 as stated fails for two overlapping calls of \<open>initialize-model\<close>. The first passes
  its key test and is suspended; the second is issued while the first is pending and
  passes its key test too; the first resumes and succeeds; the second resumes and
  succeeds as well, replacing the session in the slot and the stored parameters. Neither
  call is turned away.\<close>

theorem overlapping_initialize_counterexample:
  "initialize_model_entry (JStr ''sk-A'') = Inr ''sk-A''
   \<and> initialize_model_entry (JStr ''sk-B'') = Inr ''sk-B''
   \<and> fst (initialize_model_resume sample_prompt 1000 (ScriptItem (Some ''OpenRouter''))
          (Returns (Some ''m1'')) (Returns None) ''sk-A'' [] ''exam'' ''en-US'' initial_state)
       = IpcSuccess ()
   \<and> fst (initialize_model_resume sample_prompt 1001 (ScriptItem (Some ''OpenRouter''))
          (Returns (Some ''m2'')) (Returns None) ''sk-B'' [] ''exam'' ''en-US''
          sample_first_initialized) = IpcSuccess ()
   \<and> openRouterSessionRef sample_first_initialized = Some 0
   \<and> openRouterSessionRef
        (snd (initialize_model_resume sample_prompt 1001 (ScriptItem (Some ''OpenRouter''))
          (Returns (Some ''m2'')) (Returns None) ''sk-B'' [] ''exam'' ''en-US''
          sample_first_initialized)) = Some 1
   \<and> lastSessionParams
        (snd (initialize_model_resume sample_prompt 1001 (ScriptItem (Some ''OpenRouter''))
          (Returns (Some ''m2'')) (Returns None) ''sk-B'' [] ''exam'' ''en-US''
          sample_first_initialized))
       = Some \<lparr>params_apiKey = ''sk-B'', params_model = ''m2'', params_customPrompt = [],
               params_profile = ''exam'', params_language = ''en-US''\<rparr>"
proof -
  have i: "\<not> isInitializingSession initial_state"
    by (simp add: initial_state_def)
  have f: "\<not> isInitializingSession sample_first_initialized"
    by (rule reachable_flag_clear [OF reachable_sample_first_initialized])
  have h: "length (heap initial_state) = 0"
    by (simp add: initial_state_def)
  note a = resume_creates_session [OF i getCurrentModelType_OpenRouter,
             of sample_prompt 1000 "Some ''m1''" "Returns None" "''sk-A''" "[]" "''exam''"
                "''en-US''"]
  note b = resume_creates_session [OF f getCurrentModelType_OpenRouter,
             of sample_prompt 1001 "Some ''m2''" "Returns None" "''sk-B''" "[]" "''exam''"
                "''en-US''"]
  have s: "openRouterSessionRef sample_first_initialized = Some 0"
    using a h by (simp add: sample_first_initialized_def)
  show ?thesis
    using a b s
    by (simp add: entry_sk entry_sk_B heap_sample_first_initialized js_trim_sk_B str_or_def)
qed

section \<open>Short image payloads\<close>

lemma sendImageMessage_short:
  "length b < 100 \<Longrightarrow>
     sendImageMessage tId tTurn dl r out gSend (Some b) st = (IpcFailure ''Invalid image data'', st)"
  by (simp add: sendImageMessage_def)

lemma send_image_content_gemini_small:
  "getCurrentModelType r \<noteq> ''openrouter'' \<Longrightarrow> dl b < 1000 \<Longrightarrow>
     \<not> success (fst (send_image_content tId tTurn dl r out gSend (JStr b) st))
   \<and> snd (send_image_content tId tTurn dl r out gSend (JStr b) st) = st"
  by (simp add: send_image_content_def split: option.splits)

text \<open>
  C9. A payload too short to be an image is to make \<open>send-image-content\<close> fail
  without being forwarded, whichever provider is active. The renderer's
  \<open>sendImageMessage\<close> drops data shorter than 100 characters before it invokes the
  handler, and the Gemini branch of the handler drops data that decodes to fewer than 1000
  bytes (the two lemmas above). The openrouter branch of the handler has no test of the
  size: invoked with the three characters \<open>abc\<close> while a session is active, it posts
  them to the backend as an image and reports success.\<close>

theorem send_image_content_openrouter_unchecked:
  "fst (send_image_content 1000 1001 sample_decodedLength (ScriptItem (Some ''OpenRouter''))
          (HttpResolves (Some ''hi'')) (Returns ()) (JStr ''abc'') sample_state)
     = IpcSuccess ()
   \<and> http_log (snd (send_image_content 1000 1001 sample_decodedLength
          (ScriptItem (Some ''OpenRouter'')) (HttpResolves (Some ''hi'')) (Returns ())
          (JStr ''abc'') sample_state))
     = [\<lparr>req_model = ''m0'', req_system = ''be brief'',
         req_user = ImageContent image_prompt ''data:image/jpeg;base64,abc'',
         req_bearer = ''sk-old'', req_timeout = 45000\<rparr>]"
proof -
  have d: "deref sample_state (Some 0) = Some sample_session"
    by (simp add: deref_def sample_state_def)
  have a: "active sample_session" by (simp add: sample_session_def)
  have r: "openRouterSessionRef sample_state = Some 0" by (simp add: sample_state_def)
  have i: "sendImageToOpenRouter_issue ''abc'' (Some 0) sample_state
           = Inr (sample_state\<lparr>http_log :=
               [\<lparr>req_model = ''m0'', req_system = ''be brief'',
                 req_user = ImageContent image_prompt ''data:image/jpeg;base64,abc'',
                 req_bearer = ''sk-old'', req_timeout = 45000\<rparr>]\<rparr>)"
    by (simp add: sendImageToOpenRouter_issue_def sample_usable)
       (simp add: sample_session_def sample_state_def)
  show ?thesis
    by (simp add: send_image_content_def getCurrentModelType_OpenRouter d a r
          sendImageToOpenRouter_def i sendImageToOpenRouter_resume_def Let_def str_or_def
          saveConversationTurn_def sendToRenderer_def initializeNewSession_def split_beta)
qed

section \<open>\<open>convertStereoToMono\<close> keeps the left channel\<close>

lemma ucast_word_cat_low: "ucast (word_cat hi lo :: 16 word) = (lo :: 8 word)"
  by (rule bit_word_eqI) (simp add: bit_simps)

lemma ucast_word_cat_high:
  "ucast (drop_bit 8 (word_cat hi (lo :: 8 word) :: 16 word)) = (hi :: 8 word)"
  by (rule bit_word_eqI) (auto simp add: bit_simps)

lemma copy_sample:
  "i * 4 + 1 < length s \<Longrightarrow> i * 2 + 1 < length m \<Longrightarrow>
     readInt16LE s (i * 4) = Inr (word_cat (s ! (i * 4 + 1)) (s ! (i * 4)))
   \<and> writeInt16LE m (word_cat (s ! (i * 4 + 1)) (s ! (i * 4))) (i * 2)
       = Inr (m[i * 2 := s ! (i * 4), i * 2 + 1 := s ! (i * 4 + 1)])"
  by (simp add: readInt16LE_def writeInt16LE_def ucast_word_cat_low ucast_word_cat_high)

lemma loop_step:
  "i * 4 + 1 < length s \<Longrightarrow> i * 2 + 1 < length m \<Longrightarrow>
     convertStereoToMono_loop s i m
       = convertStereoToMono_loop s (i + 1) (m[i * 2 := s ! (i * 4), i * 2 + 1 := s ! (i * 4 + 1)])"
  using copy_sample [of i s m]
  by (subst convertStereoToMono_loop.simps) simp

lemma loop_stop: "\<not> i * 4 < length s \<Longrightarrow> convertStereoToMono_loop s i m = Inr m"
  by (subst convertStereoToMono_loop.simps) simp

lemma loop_result:
  "length s = 4 * n \<Longrightarrow> length m = 2 * n \<Longrightarrow> i \<le> n \<Longrightarrow>
     \<exists>m'. convertStereoToMono_loop s i m = Inr m' \<and> length m' = 2 * n
        \<and> (\<forall>j. i \<le> j \<and> j < n \<longrightarrow> m' ! (j * 2) = s ! (j * 4) \<and> m' ! (j * 2 + 1) = s ! (j * 4 + 1))
        \<and> (\<forall>k < i * 2. m' ! k = m ! k)"
proof (induction "n - i" arbitrary: i m)
  case 0
  then have "i = n" by simp
  then show ?case using 0 by (auto simp add: loop_stop)
next
  case (Suc d)
  let ?m1 = "m[i * 2 := s ! (i * 4), i * 2 + 1 := s ! (i * 4 + 1)]"
  have lt: "i < n" using Suc.hyps(2) by simp
  have step: "convertStereoToMono_loop s i m = convertStereoToMono_loop s (i + 1) ?m1"
    using lt Suc.prems by (intro loop_step) simp_all
  have "d = n - (i + 1)" using Suc.hyps(2) by simp
  moreover have "length ?m1 = 2 * n" using Suc.prems by simp
  moreover have "i + 1 \<le> n" using lt by simp
  ultimately obtain m' where
      r: "convertStereoToMono_loop s (i + 1) ?m1 = Inr m'" and l: "length m' = 2 * n"
    and hi: "\<forall>j. i + 1 \<le> j \<and> j < n \<longrightarrow> m' ! (j * 2) = s ! (j * 4) \<and> m' ! (j * 2 + 1) = s ! (j * 4 + 1)"
    and lo: "\<forall>k < (i + 1) * 2. m' ! k = ?m1 ! k"
    using Suc.hyps(1) [of "i + 1" ?m1] Suc.prems(1) by blast
  have len: "i * 2 + 1 < length m" using lt Suc.prems by simp
  have a: "m' ! (i * 2) = s ! (i * 4)"
    using lo len by simp
  have b: "m' ! (i * 2 + 1) = s ! (i * 4 + 1)"
    using lo len by simp
  have c: "\<forall>k < i * 2. m' ! k = m ! k"
    using lo by simp
  have "\<forall>j. i \<le> j \<and> j < n \<longrightarrow> m' ! (j * 2) = s ! (j * 4) \<and> m' ! (j * 2 + 1) = s ! (j * 4 + 1)"
  proof (intro allI impI)
    fix j assume j: "i \<le> j \<and> j < n"
    show "m' ! (j * 2) = s ! (j * 4) \<and> m' ! (j * 2 + 1) = s ! (j * 4 + 1)"
    proof (cases "j = i")
      case True
      then show ?thesis using a b by simp
    next
      case False
      then have "i + 1 \<le> j \<and> j < n" using j by simp
      then show ?thesis using hi by blast
    qed
  qed
  then show ?case using step r l c by simp
qed

lemma convertStereoToMono_bytes:
  assumes "length stereoBuffer mod 4 = 0"
  shows "\<exists>mono. convertStereoToMono stereoBuffer = Inr mono
           \<and> length mono * 2 = length stereoBuffer
           \<and> (\<forall>j < length stereoBuffer div 4.
                 mono ! (j * 2) = stereoBuffer ! (j * 4)
               \<and> mono ! (j * 2 + 1) = stereoBuffer ! (j * 4 + 1))"
proof -
  define n where "n = length stereoBuffer div 4"
  have l: "length stereoBuffer = 4 * n" using assms by (auto simp add: n_def)
  have "length (replicate (length stereoBuffer div 2) (0 :: 8 word)) = 2 * n"
    using l by simp
  from loop_result [OF l this, of 0] show ?thesis
    unfolding convertStereoToMono_def using l by auto
qed

text \<open>
  C10. For a stereo buffer whose length is a multiple of 4, \<open>convertStereoToMono\<close>
  returns (it does not throw) a buffer of half that length, and for every frame index
  \<open>i\<close> the 16-bit little-endian sample at byte \<open>2 i\<close> of the result is the sample at
  byte \<open>4 i\<close> of the input, the left sample of frame \<open>i\<close>; both reads succeed.\<close>

theorem convertStereoToMono_left_channel:
  "length stereoBuffer mod 4 = 0 \<Longrightarrow>
     \<exists>mono. convertStereoToMono stereoBuffer = Inr mono
       \<and> length mono * 2 = length stereoBuffer
       \<and> (\<forall>i < length stereoBuffer div 4.
             \<exists>v. readInt16LE mono (i * 2) = Inr v \<and> readInt16LE stereoBuffer (i * 4) = Inr v)"
proof -
  assume a: "length stereoBuffer mod 4 = 0"
  obtain mono where m: "convertStereoToMono stereoBuffer = Inr mono
           \<and> length mono * 2 = length stereoBuffer
           \<and> (\<forall>j < length stereoBuffer div 4.
                 mono ! (j * 2) = stereoBuffer ! (j * 4)
               \<and> mono ! (j * 2 + 1) = stereoBuffer ! (j * 4 + 1))"
    using convertStereoToMono_bytes [OF a] ..
  then have r: "convertStereoToMono stereoBuffer = Inr mono"
    and l: "length mono * 2 = length stereoBuffer"
    and b: "\<forall>j < length stereoBuffer div 4.
                 mono ! (j * 2) = stereoBuffer ! (j * 4)
               \<and> mono ! (j * 2 + 1) = stereoBuffer ! (j * 4 + 1)"
    by blast+
  have "\<exists>v. readInt16LE mono (i * 2) = Inr v \<and> readInt16LE stereoBuffer (i * 4) = Inr v"
    if "i < length stereoBuffer div 4" for i
  proof -
    have "i * 4 + 1 < length stereoBuffer" "i * 2 + 1 < length mono"
      using that l by auto
    then show ?thesis using b that by (simp add: readInt16LE_def)
  qed
  then show ?thesis using r l by blast
qed

lemma convertStereoToMono_sample:
  "convertStereoToMono [1, 2, 3, 4, 254, 255, 7, 8] = Inr [1, 2, 254, 255]"
  by code_simp

lemma readInt16LE_sample:
  "readInt16LE [1, 2, 254, 255] 2 = Inr (- 2)" "readInt16LE [1, 2, 3, 4, 254, 255, 7, 8] 4 = Inr (- 2)"
  by code_simp+

text \<open>When the length is no multiple of 4 the last write falls outside the buffer
  allocated.\<close>

lemma convertStereoToMono_odd:
  "convertStereoToMono [1, 2, 3, 4, 5, 6] = Inl RangeError"
  by code_simp


theorem convertStereoToMono_left_channel_witness:
  "length [1, 2, 3, 4, 254, 255, 7, 8 :: 8 word] mod 4 = 0
   \<and> convertStereoToMono [1, 2, 3, 4, 254, 255, 7, 8] = Inr [1, 2, 254, 255]
   \<and> readInt16LE [1, 2, 254, 255] 2 = Inr (- 2)
   \<and> readInt16LE [1, 2, 3, 4, 254, 255, 7, 8] 4 = Inr (- 2)"
  using convertStereoToMono_left_channel [of "[1, 2, 3, 4, 254, 255, 7, 8]"]
  by (simp add: convertStereoToMono_sample readInt16LE_sample)

end
